theory Spec2Isabelle
  imports Complex_Main "HOL-Library.Word" "HOL-Library.Multiset"
begin

section \<open>Values: numpy scalars, dtypes and Python exceptions\<close>

text \<open>
  The module \<^verbatim>\<open>tasks/ubuntu.py\<close> pads token sequences into numpy tensors. Two element
  types occur in what follows: \<^verbatim>\<open>int32\<close>, the default \<^verbatim>\<open>dtype\<close> of \<^verbatim>\<open>pad_3d_sequence\<close>
  and of Keras' \<^verbatim>\<open>pad_sequences\<close>, and floating point. An integer scalar is a 32-bit word
  (read with \<open>sint\<close>); Python integers beyond that range are outside the model. A float
  scalar carries the rational number it denotes (every finite float is one). Floats
  whose integer part does not fit \<^verbatim>\<open>int32\<close> are outside the model as well: what numpy
  makes of them on conversion to \<^verbatim>\<open>int32\<close> depends on its version and on the container
  (it wraps, stores the least integer, or raises \<^verbatim>\<open>OverflowError\<close>). The type \<open>pyfloat\<close>
  holds the others, on which every conversion is the truncation toward zero.
\<close>

datatype dtype = Int32 | Float64

typedef pyfloat = "{r :: rat. - 2147483649 < r \<and> r < 2147483648}"
  morphisms float_val PyFloat
  by (rule exI [of _ 0]) simp

datatype scalar = IntS "32 word" | FloatS pyfloat

datatype error =
    ValueError
  | KeyError string
  | ZeroDivisionError
  | TypeError
  | IOError string
  | ExternalError string

fun dtype_of :: "scalar \<Rightarrow> dtype" where
  "dtype_of (IntS w) = Int32"
| "dtype_of (FloatS r) = Float64"

definition trunc_toward_zero :: "rat \<Rightarrow> int" where
  "trunc_toward_zero r = (if r < 0 then \<lceil>r\<rceil> else \<lfloor>r\<rfloor>)"

text \<open>
  \<^verbatim>\<open>astype\<close> is the element conversion behind \<^verbatim>\<open>np.array(x, dtype=dtype)\<close> and
  \<^verbatim>\<open>.astype(dtype)\<close>: a float becomes an \<^verbatim>\<open>int32\<close> by truncation toward zero (the C
  conversion), an \<^verbatim>\<open>int32\<close> becomes the float of the same value.
\<close>

fun astype :: "dtype \<Rightarrow> scalar \<Rightarrow> scalar" where
  "astype Int32 (IntS w) = IntS w"
| "astype Int32 (FloatS r) = IntS (word_of_int (trunc_toward_zero (float_val r)))"
| "astype Float64 (IntS w) = FloatS (PyFloat (of_int (sint w)))"
| "astype Float64 (FloatS r) = FloatS r"

fun np_zero :: "dtype \<Rightarrow> scalar" where
  "np_zero Int32 = IntS 0"
| "np_zero Float64 = FloatS (PyFloat 0)"

section \<open>Sequences and arrays\<close>

text \<open>
  One element of \<^verbatim>\<open>seqs\<close> is a sequence of tokens, each token a feature vector. It is
  either a Python list of lists, or a two-dimensional numpy array (what iterating over
  an already padded three-dimensional tensor yields), which knows its number of columns
  even when it has no row.
\<close>

datatype seq = PyList "scalar list list" | Array2 nat "scalar list list"

fun tokens :: "seq \<Rightarrow> scalar list list" where
  "tokens (PyList xs) = xs"
| "tokens (Array2 c xs) = xs"

text \<open>
  Python's \<^verbatim>\<open>s[-maxlen:]\<close>: the last \<^verbatim>\<open>maxlen\<close> elements, all of \<^verbatim>\<open>s\<close> when it is
  shorter, and also all of \<^verbatim>\<open>s\<close> when \<^verbatim>\<open>maxlen\<close> is 0, since \<^verbatim>\<open>-0\<close> is \<^verbatim>\<open>0\<close>.
\<close>

definition py_suffix :: "nat \<Rightarrow> 'a list \<Rightarrow> 'a list" where
  "py_suffix maxlen s = (if maxlen = 0 then s else drop (length s - maxlen) s)"

fun seq_suffix :: "nat \<Rightarrow> seq \<Rightarrow> seq" where
  "seq_suffix maxlen (PyList xs) = PyList (py_suffix maxlen xs)"
| "seq_suffix maxlen (Array2 c xs) = Array2 c (py_suffix maxlen xs)"

text \<open>
  The array \<^verbatim>\<open>np.array(s, dtype=dtype)\<close> built from a sequence: the empty Python list
  gives the one-dimensional array of shape \<^verbatim>\<open>(0,)\<close>; a list of \<open>k\<close> vectors of one common
  length \<open>m\<close> gives a matrix of shape \<^verbatim>\<open>(k, m)\<close>; vectors of different lengths cannot be
  stored with a numeric dtype and raise \<^verbatim>\<open>ValueError\<close>; an array keeps its shape.
\<close>

datatype ndarray = Empty1 | Matrix nat "scalar list list"

fun np_array :: "dtype \<Rightarrow> seq \<Rightarrow> error + ndarray" where
  "np_array dt (PyList []) = Inr Empty1"
| "np_array dt (PyList (r # rs)) =
     (if \<forall>r' \<in> set rs. length r' = length r
      then Inr (Matrix (length r) (map (map (astype dt)) (r # rs)))
      else Inl ValueError)"
| "np_array dt (Array2 c xs) = Inr (Matrix c (map (map (astype dt)) xs))"

text \<open>
  numpy broadcasting of one source row of width 1 over \<open>nd\<close> columns; a row of width
  \<open>nd\<close> is copied as it is.
\<close>

definition broadcast :: "nat \<Rightarrow> scalar list \<Rightarrow> scalar list" where
  "broadcast nd v = (if length v = 1 then replicate nd (hd v) else v)"

text \<open>
  The assignment \<^verbatim>\<open>pseqs[i, :trunc.shape[0]] = trunc\<close>, where \<open>old\<close> is the current
  \<^verbatim>\<open>pseqs[i]\<close> of shape \<^verbatim>\<open>(maxlen, nd)\<close>. The target \<^verbatim>\<open>pseqs[i, :k]\<close> has shape
  \<^verbatim>\<open>(min k maxlen, nd)\<close>. numpy broadcasts the source to it, aligning the axes from
  the right: each source axis must be 1 or equal the target axis, else \<^verbatim>\<open>ValueError\<close>
  (could not broadcast input array). The source of shape \<^verbatim>\<open>(0,)\<close> therefore fits only
  \<open>nd = 0\<close>. When the source has one row and the target \<open>t \<le> 1\<close> rows, repeating that row
  over the target is \<open>take t\<close>.
\<close>

fun assign_prefix :: "nat \<Rightarrow> nat \<Rightarrow> scalar list list \<Rightarrow> ndarray \<Rightarrow> error + scalar list list" where
  "assign_prefix maxlen nd old Empty1 = (if nd = 0 then Inr old else Inl ValueError)"
| "assign_prefix maxlen nd old (Matrix m rows) =
     (let k = length rows; t = min k maxlen in
      if (m = 1 \<or> m = nd) \<and> (k = 1 \<or> k = t)
      then Inr (map (broadcast nd) (take t rows) @ drop t old)
      else Inl ValueError)"

section \<open>pad\_3d\_sequence\<close>

text \<open>
  A three-dimensional tensor: its dtype, its shape as numpy records it, and its
  entries \<^verbatim>\<open>data[i][j][k]\<close>.
\<close>

record tensor3 =
  t_dtype :: dtype
  t_shape :: "nat \<times> nat \<times> nat"
  t_data :: "scalar list list list"

text \<open>
  \<^verbatim>\<open>
  def pad_3d_sequence(seqs, maxlen, nd, dtype='int32'):
      pseqs = np.zeros((len(seqs), maxlen, nd)).astype(dtype)
      for i, seq in enumerate(seqs):
          trunc = np.array(seq[-maxlen:], dtype=dtype)  # trunacting='pre'
          pseqs[i, :trunc.shape[0]] = trunc  # padding='post'
      return pseqs
  \<close>
  The loop runs over \<^verbatim>\<open>enumerate(seqs)\<close> with \<^verbatim>\<open>pseqs\<close> as its state; the first
  exception ends the call.
\<close>

fun pad_loop :: "dtype \<Rightarrow> nat \<Rightarrow> nat \<Rightarrow> (nat \<times> seq) list \<Rightarrow> scalar list list list
    \<Rightarrow> error + scalar list list list" where
  "pad_loop dt maxlen nd [] pseqs = Inr pseqs"
| "pad_loop dt maxlen nd ((i, s) # rest) pseqs =
     (case np_array dt (seq_suffix maxlen s) of
        Inl e \<Rightarrow> Inl e
      | Inr trunc \<Rightarrow>
          (case assign_prefix maxlen nd (pseqs ! i) trunc of
             Inl e \<Rightarrow> Inl e
           | Inr row \<Rightarrow> pad_loop dt maxlen nd rest (pseqs[i := row])))"

definition np_zeros :: "dtype \<Rightarrow> nat \<Rightarrow> nat \<Rightarrow> nat \<Rightarrow> scalar list list list" where
  "np_zeros dt n maxlen nd = replicate n (replicate maxlen (replicate nd (np_zero dt)))"

definition pad_3d_sequence :: "seq list \<Rightarrow> nat \<Rightarrow> nat \<Rightarrow> dtype \<Rightarrow> error + tensor3" where
  "pad_3d_sequence seqs maxlen nd dt =
     (case pad_loop dt maxlen nd (List.enumerate 0 seqs) (np_zeros dt (length seqs) maxlen nd) of
        Inl e \<Rightarrow> Inl e
      | Inr pseqs \<Rightarrow> Inr \<lparr>t_dtype = dt, t_shape = (length seqs, maxlen, nd), t_data = pseqs\<rparr>)"


text \<open>
  The same loop, one sequence at a time: \<open>pad_row\<close> is what the body stores in row
  \<open>i\<close> of a fresh \<^verbatim>\<open>pseqs\<close>, and \<open>collect\<close> runs a list of computations in order and
  stops at the first exception. Lemma \<open>pad_3d_sequence_rows\<close> below proves that the loop
  computes exactly this.
\<close>

definition zero_rows :: "dtype \<Rightarrow> nat \<Rightarrow> nat \<Rightarrow> scalar list list" where
  "zero_rows dt maxlen nd = replicate maxlen (replicate nd (np_zero dt))"

definition pad_row :: "dtype \<Rightarrow> nat \<Rightarrow> nat \<Rightarrow> seq \<Rightarrow> error + scalar list list" where
  "pad_row dt maxlen nd s =
     (case np_array dt (seq_suffix maxlen s) of
        Inl e \<Rightarrow> Inl e
      | Inr trunc \<Rightarrow> assign_prefix maxlen nd (zero_rows dt maxlen nd) trunc)"

fun collect :: "('e + 'a) list \<Rightarrow> 'e + 'a list" where
  "collect [] = Inr []"
| "collect (x # xs) =
     (case x of
        Inl e \<Rightarrow> Inl e
      | Inr y \<Rightarrow> (case collect xs of Inl e \<Rightarrow> Inl e | Inr ys \<Rightarrow> Inr (y # ys)))"

text \<open>
  The typing discipline of the data: a token of \<open>nd\<close> features whose scalars already
  have dtype \<open>dt\<close> is stored unchanged by the conversions above. A two-dimensional
  array is well formed when its rows have the width it records.
\<close>

definition conforms :: "dtype \<Rightarrow> nat \<Rightarrow> scalar list list \<Rightarrow> bool" where
  "conforms dt nd toks = list_all (\<lambda>tok. length tok = nd \<and> list_all (\<lambda>x. dtype_of x = dt) tok) toks"

fun wf_seq :: "seq \<Rightarrow> bool" where
  "wf_seq (PyList xs) = True"
| "wf_seq (Array2 c xs) = list_all (\<lambda>r. length r = c) xs"

text \<open>
  A sequence that \<^verbatim>\<open>pad_3d_sequence\<close> accepts for every \<open>maxlen > 0\<close>: a non-empty
  Python list of vectors of width \<open>nd\<close>, or an array of \<open>nd\<close> columns.
\<close>

definition paddable :: "nat \<Rightarrow> seq \<Rightarrow> bool" where
  "paddable nd s =
     (case s of
        PyList xs \<Rightarrow> xs \<noteq> [] \<and> list_all (\<lambda>tok. length tok = nd) xs
      | Array2 c xs \<Rightarrow> c = nd)"

section \<open>Keras' pad\_sequences and the label array\<close>

text \<open>
  \<^verbatim>\<open>pad_sequences(sequences, maxlen, truncating='pre', padding='post')\<close> is a function
  of the Keras library, called with its defaults \<^verbatim>\<open>dtype='int32'\<close> and \<^verbatim>\<open>value=0.\<close>. On
  sequences of scalars it allocates the \<^verbatim>\<open>int32\<close> matrix of shape
  \<^verbatim>\<open>(len(sequences), maxlen)\<close> filled with 0 and, for every sequence \<^verbatim>\<open>s\<close> in turn,
  skips it when it is empty and otherwise executes
  \<^verbatim>\<open>trunc = s[-maxlen:]; x[idx, :len(trunc)] = trunc\<close>, with the broadcasting rule of
  numpy for the assignment.
\<close>

record tensor2 =
  m_dtype :: dtype
  m_shape :: "nat \<times> nat"
  m_data :: "scalar list list"

definition pad_seq_row :: "nat \<Rightarrow> scalar list \<Rightarrow> error + scalar list" where
  "pad_seq_row maxlen s =
     (if s = [] then Inr (replicate maxlen (np_zero Int32))
      else
        (let trunc = map (astype Int32) (py_suffix maxlen s);
             k = length trunc;
             t = min k maxlen
         in if k = 1 \<or> k = t
            then Inr (take t trunc @ drop t (replicate maxlen (np_zero Int32)))
            else Inl ValueError))"

definition pad_sequences :: "scalar list list \<Rightarrow> nat \<Rightarrow> error + tensor2" where
  "pad_sequences sequences maxlen =
     (case collect (map (pad_seq_row maxlen) sequences) of
        Inl e \<Rightarrow> Inl e
      | Inr rows \<Rightarrow>
          Inr \<lparr>m_dtype = Int32, m_shape = (length sequences, maxlen), m_data = rows\<rparr>)"

text \<open>
  \<^verbatim>\<open>np.array(labels)\<close> with no dtype: numpy chooses the common dtype, so one float
  among the labels makes every label a float.
\<close>

definition np_array_1d :: "scalar list \<Rightarrow> scalar list" where
  "np_array_1d xs =
     (if list_ex (\<lambda>x. dtype_of x = Float64) xs then map (astype Float64) xs else xs)"

section \<open>The graph: the dataset dictionary\<close>

text \<open>
  \<^verbatim>\<open>gr\<close> is the dataset dictionary that \<^verbatim>\<open>pad_graph\<close>, \<^verbatim>\<open>sample_pairs\<close> and \<^verbatim>\<open>eval\<close> work
  on. The five entries that this module reads and writes are fields, typed as a dataset
  file provides them and as padding leaves them: a Python list, or the numpy tensor that replaced it. Every other
  entry (\<^verbatim>\<open>'s0'\<close>, \<^verbatim>\<open>'s1'\<close>, ...) is kept in the map \<open>rest\<close>, a list of one value per
  sample under each key.
\<close>

datatype idxs = IdxLists "scalar list list" | IdxArray tensor2

datatype feats = FeatLists "seq list" | FeatArray tensor3

datatype labels = LabelList "scalar list" | LabelArray "scalar list"

record 'x graph =
  si0 :: idxs
  si1 :: idxs
  f0 :: feats
  f1 :: feats
  score :: labels
  rest :: "string \<rightharpoonup> 'x list"

text \<open>Iterating over an entry: a list gives its elements, a tensor its rows.\<close>

fun idx_rows :: "idxs \<Rightarrow> scalar list list" where
  "idx_rows (IdxLists xs) = xs"
| "idx_rows (IdxArray a) = m_data a"

fun feat_seqs :: "feats \<Rightarrow> seq list" where
  "feat_seqs (FeatLists xs) = xs"
| "feat_seqs (FeatArray a) = map (Array2 (snd (snd (t_shape a)))) (t_data a)"

fun np_array_labels :: "labels \<Rightarrow> labels" where
  "np_array_labels (LabelList xs) = LabelArray (np_array_1d xs)"
| "np_array_labels (LabelArray xs) = LabelArray xs"

section \<open>pad\_graph\<close>

text \<open>
  \<^verbatim>\<open>
  def pad_graph(gr, s0pad, s1pad):
      gr['si0'] = pad_sequences(gr['si0'], maxlen=s0pad, truncating='pre', padding='post')
      gr['si1'] = pad_sequences(gr['si1'], maxlen=s1pad, truncating='pre', padding='post')
      gr['f0'] = pad_3d_sequence(gr['f0'], maxlen=s0pad, nd=nlp.flagsdim)
      gr['f1'] = pad_3d_sequence(gr['f1'], maxlen=s1pad, nd=nlp.flagsdim)
      gr['score'] = np.array(gr['score'])
  \<close>
  The function returns nothing and updates the dictionary in place: the model returns
  the dictionary as the call leaves it, together with the exception that ended the
  call, if any. The entries written before an exception stay written. The constant
  \<^verbatim>\<open>nlp.flagsdim\<close> is defined outside this module and is the parameter \<open>flagsdim\<close>;
  \<^verbatim>\<open>dtype\<close> is left at its default \<^verbatim>\<open>'int32'\<close>.
\<close>

definition pad_graph :: "'x graph \<Rightarrow> nat \<Rightarrow> nat \<Rightarrow> nat \<Rightarrow> 'x graph \<times> error option" where
  "pad_graph g p0 p1 flagsdim =
     (case pad_sequences (idx_rows (si0 g)) p0 of
        Inl e \<Rightarrow> (g, Some e)
      | Inr a \<Rightarrow>
          (let g1 = g\<lparr>si0 := IdxArray a\<rparr> in
           case pad_sequences (idx_rows (si1 g1)) p1 of
             Inl e \<Rightarrow> (g1, Some e)
           | Inr b \<Rightarrow>
               (let g2 = g1\<lparr>si1 := IdxArray b\<rparr> in
                case pad_3d_sequence (feat_seqs (f0 g2)) p0 flagsdim Int32 of
                  Inl e \<Rightarrow> (g2, Some e)
                | Inr c \<Rightarrow>
                    (let g3 = g2\<lparr>f0 := FeatArray c\<rparr> in
                     case pad_3d_sequence (feat_seqs (f1 g3)) p1 flagsdim Int32 of
                       Inl e \<Rightarrow> (g3, Some e)
                     | Inr d \<Rightarrow>
                         (let g4 = g3\<lparr>f1 := FeatArray d\<rparr> in
                          (g4\<lparr>score := np_array_labels (score g4)\<rparr>, None))))))"


section \<open>sample\_pairs: the batch generator\<close>

text \<open>
  Python's \<^verbatim>\<open>v[a:b]\<close> for \<open>0 \<le> a \<le> b\<close>: the elements at the indices from \<open>a\<close> up to but
  not including \<open>b\<close>, as many of them as \<open>v\<close> has.
\<close>

definition py_slice :: "nat \<Rightarrow> nat \<Rightarrow> 'a list \<Rightarrow> 'a list" where
  "py_slice a b v = take (b - a) (drop a v)"

fun slice_idxs :: "nat \<Rightarrow> nat \<Rightarrow> idxs \<Rightarrow> idxs" where
  "slice_idxs a b (IdxLists xs) = IdxLists (py_slice a b xs)"
| "slice_idxs a b (IdxArray t) =
     IdxArray (t\<lparr>m_shape := (length (py_slice a b (m_data t)), snd (m_shape t)),
                m_data := py_slice a b (m_data t)\<rparr>)"

fun slice_feats :: "nat \<Rightarrow> nat \<Rightarrow> feats \<Rightarrow> feats" where
  "slice_feats a b (FeatLists xs) = FeatLists (py_slice a b xs)"
| "slice_feats a b (FeatArray t) =
     FeatArray (t\<lparr>t_shape := (length (py_slice a b (t_data t)), snd (t_shape t)),
                 t_data := py_slice a b (t_data t)\<rparr>)"

fun slice_labels :: "nat \<Rightarrow> nat \<Rightarrow> labels \<Rightarrow> labels" where
  "slice_labels a b (LabelList xs) = LabelList (py_slice a b xs)"
| "slice_labels a b (LabelArray xs) = LabelArray (py_slice a b xs)"

text \<open>
  Modelled from the spec: \<^verbatim>\<open>graph_input_slice\<close> belongs to the package \<^verbatim>\<open>pysts.kerasts\<close>,
  which is not part of the sources at hand. The specification says that it "extracts a
  sub-batch by index range": the new dictionary holds, under every key of \<^verbatim>\<open>gr\<close>, the
  slice \<^verbatim>\<open>gr[key][sl]\<close>.
\<close>

definition graph_input_slice :: "'x graph \<Rightarrow> nat \<Rightarrow> nat \<Rightarrow> 'x graph" where
  "graph_input_slice g a b =
     \<lparr>si0 = slice_idxs a b (si0 g), si1 = slice_idxs a b (si1 g),
      f0 = slice_feats a b (f0 g), f1 = slice_feats a b (f1 g),
      score = slice_labels a b (score g),
      rest = (\<lambda>key. map_option (py_slice a b) (rest g key))\<rparr>"


definition batch :: "'x graph \<Rightarrow> nat \<Rightarrow> nat \<Rightarrow> nat \<Rightarrow> nat \<Rightarrow> nat \<Rightarrow> 'x graph \<times> error option" where
  "batch g batch_size p0 p1 flagsdim i =
     pad_graph (graph_input_slice g (i * batch_size) ((i + 1) * batch_size)) p0 p1 flagsdim"

text \<open>One pass of the \<^verbatim>\<open>for\<close> loop: the batches yielded, and the exception that ended it.\<close>

fun sample_pass :: "'x graph \<Rightarrow> nat \<Rightarrow> nat \<Rightarrow> nat \<Rightarrow> nat \<Rightarrow> nat list
    \<Rightarrow> 'x graph list \<times> error option" where
  "sample_pass g batch_size p0 p1 flagsdim [] = ([], None)"
| "sample_pass g batch_size p0 p1 flagsdim (i # ids) =
     (case batch g batch_size p0 p1 flagsdim i of
        (ogr, Some e) \<Rightarrow> ([], Some e)
      | (ogr, None) \<Rightarrow>
          (case sample_pass g batch_size p0 p1 flagsdim ids of
             (ys, r) \<Rightarrow> (ogr # ys, r)))"

text \<open>
  The \<^verbatim>\<open>while True\<close> loop may run forever, so it takes fuel: the number of passes it
  may start. \<open>Running\<close> says that the fuel ran out with the generator still alive,
  \<open>Stopped\<close> that the generator returned (\<^verbatim>\<open>break\<close>), \<open>Raised\<close> that an exception left it.
\<close>

datatype status = Running | Stopped | Raised error

fun sample_loop :: "nat \<Rightarrow> ('r \<Rightarrow> nat list \<Rightarrow> nat list \<times> 'r) \<Rightarrow> 'r \<Rightarrow> 'x graph \<Rightarrow> nat \<Rightarrow> nat
    \<Rightarrow> nat \<Rightarrow> nat \<Rightarrow> nat list \<Rightarrow> bool \<Rightarrow> 'x graph list \<times> status" where
  "sample_loop 0 shuffle rng g batch_size p0 p1 flagsdim ids once = ([], Running)"
| "sample_loop (Suc fuel) shuffle rng g batch_size p0 p1 flagsdim ids once =
     (case shuffle rng ids of
        (ids', rng') \<Rightarrow>
          (case sample_pass g batch_size p0 p1 flagsdim ids' of
             (ys, Some e) \<Rightarrow> (ys, Raised e)
           | (ys, None) \<Rightarrow>
               if once then (ys, Stopped)
               else (case sample_loop fuel shuffle rng' g batch_size p0 p1 flagsdim ids' once of
                       (zs, st) \<Rightarrow> (ys @ zs, st))))"












section \<open>UbuntuTask\<close>

text \<open>
  \<^verbatim>\<open>cPickle.load(open(fname, "rb"))\<close> is the parameter \<open>unpickle\<close>: the object stored in
  the file, or the exception of opening or decoding it. An object is told apart by what
  unpacking it does: \<open>Iterable xs\<close> is an object whose iteration gives the items \<open>xs\<close> in
  this order (a tuple, a list, an array by its rows, a dictionary by its keys), \<open>Atom a\<close>
  is an object that cannot be iterated (\<^verbatim>\<open>None\<close>, a number).
\<close>

datatype 'a pyobj = Atom 'a | Iterable "'a pyobj list"

text \<open>
  The attributes that \<^verbatim>\<open>__init__\<close> sets. \<^verbatim>\<open>self.vocab\<close> holds whatever \<^verbatim>\<open>load_vocab\<close>
  unpickled, or \<^verbatim>\<open>None\<close>.
  \<^verbatim>\<open>
  def __init__(self):
      self.name = 'ubuntu'
      self.s0pad = 160
      self.s1pad = 160
      self.emb = None
      self.vocab = None
  \<close>
\<close>

record ('e, 'a) task =
  name :: string
  s0pad :: nat
  s1pad :: nat
  emb :: "'e option"
  vocab :: "'a pyobj option"

definition UbuntuTask :: "('e, 'a) task" where
  "UbuntuTask = \<lparr>name = ''ubuntu'', s0pad = 160, s1pad = 160, emb = None, vocab = None\<rparr>"

text \<open>
  Modelled from the spec: \<^verbatim>\<open>graph_input_anssel\<close> belongs to \<^verbatim>\<open>pysts.kerasts\<close>, not part of
  the sources at hand. The specification says that it "builds the example mapping from
  raw arrays": the dictionary with the entries \<^verbatim>\<open>si0\<close>, \<^verbatim>\<open>si1\<close>, \<^verbatim>\<open>score\<close>, \<^verbatim>\<open>f0\<close>, \<^verbatim>\<open>f1\<close>,
  each holding the object it was given.
\<close>

definition graph_input_anssel :: "'a pyobj \<Rightarrow> 'a pyobj \<Rightarrow> 'a pyobj \<Rightarrow> 'a pyobj \<Rightarrow> 'a pyobj
    \<Rightarrow> (string \<rightharpoonup> 'a pyobj)" where
  "graph_input_anssel a b y c d =
     [''si0'' \<mapsto> a, ''si1'' \<mapsto> b, ''score'' \<mapsto> y, ''f0'' \<mapsto> c, ''f1'' \<mapsto> d]"

text \<open>
  \<^verbatim>\<open>
  def load_set(self, fname, cache_dir=None):
      si0, si1, f0, f1, labels = cPickle.load(open(fname, "rb"))
      gr = graph_input_anssel(si0, si1, labels, f0, f1)
      return (gr, labels, self.vocab)

  def load_vocab(self, vocabf):
      self.vocab = pickle.load(open(vocabf, "rb"))
      return self.vocab
  \<close>
  The assignment to the five names, here \<open>a\<close>, \<open>b\<close>, \<open>c\<close>, \<open>d\<close> and \<open>y\<close>, unpacks any object whose iteration gives five items; it
  raises \<^verbatim>\<open>ValueError\<close> on any other number of items and \<^verbatim>\<open>TypeError\<close> on an object that
  cannot be iterated. \<^verbatim>\<open>load_vocab\<close> returns the object together with the updated task.
\<close>

fun unpack5 :: "'a pyobj \<Rightarrow> error + ('a pyobj \<times> 'a pyobj \<times> 'a pyobj \<times> 'a pyobj \<times> 'a pyobj)" where
  "unpack5 (Atom v) = Inl TypeError"
| "unpack5 (Iterable [a, b, c, d, y]) = Inr (a, b, c, d, y)"
| "unpack5 (Iterable xs) = Inl ValueError"

definition load_set :: "(string \<Rightarrow> error + 'a pyobj) \<Rightarrow> ('e, 'a) task \<Rightarrow> string
    \<Rightarrow> error + ((string \<rightharpoonup> 'a pyobj) \<times> 'a pyobj \<times> 'a pyobj option)" where
  "load_set unpickle self fname =
     (case unpickle fname of
        Inl e \<Rightarrow> Inl e
      | Inr obj \<Rightarrow>
          (case unpack5 obj of
             Inl e \<Rightarrow> Inl e
           | Inr (a, b, c, d, y) \<Rightarrow> Inr (graph_input_anssel a b y c d, y, vocab self)))"

definition load_vocab :: "(string \<Rightarrow> error + 'a pyobj) \<Rightarrow> ('e, 'a) task \<Rightarrow> string
    \<Rightarrow> error + ('a pyobj \<times> ('e, 'a) task)" where
  "load_vocab unpickle self vocabf =
     (case unpickle vocabf of
        Inl e \<Rightarrow> Inl e
      | Inr v \<Rightarrow> Inr (v, self\<lparr>vocab := Some v\<rparr>))"

text \<open>
  The attributes read by \<^verbatim>\<open>eval\<close> are set by the inherited \<^verbatim>\<open>load_data\<close>: the three
  graphs, \<^verbatim>\<open>None\<close> for a split that is not loaded, and the three file names.
\<close>

record ('e, 'v, 'x) loaded_task = "('e, 'v) task" +
  gr :: "'x graph option"
  grv :: "'x graph option"
  grt :: "'x graph option"
  trainf :: string
  valf :: string
  testf :: string




section \<open>Example data\<close>

text \<open>
  A graph of two samples and a dataset of five, on which the theorems below are
  exercised; \<open>reverse_shuffle\<close> is a shuffle that reverses the list.
\<close>

definition example_graph :: "string graph" where
  "example_graph =
     \<lparr>si0 = IdxLists [[IntS 4, IntS 5, IntS 6], [IntS 7]],
      si1 = IdxLists [[IntS 1], []],
      f0 = FeatLists [PyList [[IntS 1], [IntS 0], [IntS 1]], PyList [[IntS 1]]],
      f1 = FeatLists [PyList [[IntS 0]], PyList [[IntS 1]]],
      score = LabelList [IntS 1, IntS 0],
      rest = [''s0'' \<mapsto> [''a'', ''b'']]\<rparr>"




text \<open>
  Two files, a task that has loaded only its training set, and stand-ins for the model
  and the evaluation library that return one score and one metric.
\<close>

definition example_unpickle :: "string \<Rightarrow> error + int pyobj" where
  "example_unpickle fname =
     (if fname = ''train.pickle''
      then Inr (Iterable
             [Iterable [Iterable [Atom 4, Atom 5, Atom 6], Iterable [Atom 7]],
              Iterable [Iterable [Atom 1], Iterable []],
              Iterable [Iterable [Iterable [Atom 1], Iterable [Atom 0], Iterable [Atom 1]],
                        Iterable [Iterable [Atom 1]]],
              Iterable [Iterable [Iterable [Atom 0]], Iterable [Iterable [Atom 1]]],
              Iterable [Atom 1, Atom 0]])
      else if fname = ''numbers.pickle''
      then Inr (Iterable [Atom 1, Atom 2, Atom 3, Atom 4, Atom 5])
      else if fname = ''pair.pickle'' then Inr (Iterable [Atom 1, Atom 2])
      else if fname = ''none.pickle'' then Inr (Atom 0)
      else if fname = ''vocab.pickle'' then Inr (Iterable [Iterable [Atom 0, Atom 1]])
      else Inl (IOError fname))"




section \<open>The padding loop, row by row\<close>


lemma collect_map_Inr:
  "collect (map f xs) = Inr ys \<longleftrightarrow> list_all2 (\<lambda>x y. f x = Inr y) xs ys"
proof (induction xs arbitrary: ys)
  case Nil
  then show ?case by auto
next
  case (Cons x xs)
  show ?case
    by (cases ys; cases "f x"; cases "collect (map f xs)") (auto simp: Cons.IH [symmetric])
qed

lemma collect_map_Inl:
  "collect (map f xs) = Inl e \<Longrightarrow> \<exists>x \<in> set xs. f x = Inl e"
  by (induction xs) (auto split: sum.splits)

lemma collect_map_raises:
  "x \<in> set xs \<Longrightarrow> f x = Inl e \<Longrightarrow> \<exists>e'. collect (map f xs) = Inl e'"
  by (induction xs) (auto split: sum.splits)

lemma pad_loop_enumerate:
  "j + length ss \<le> length pseqs \<Longrightarrow>
   \<forall>i. j \<le> i \<and> i < j + length ss \<longrightarrow> pseqs ! i = zero_rows dt maxlen nd \<Longrightarrow>
   pad_loop dt maxlen nd (List.enumerate j ss) pseqs =
     (case collect (map (pad_row dt maxlen nd) ss) of
        Inl e \<Rightarrow> Inl e
      | Inr rows \<Rightarrow> Inr (take j pseqs @ rows @ drop (j + length ss) pseqs))"
proof (induction ss arbitrary: j pseqs)
  case Nil
  then show ?case by simp
next
  case (Cons s ss)
  have zero: "pseqs ! j = zero_rows dt maxlen nd"
    using Cons.prems by simp
  show ?case
  proof (cases "pad_row dt maxlen nd s")
    case (Inl e)
    then show ?thesis
      using zero by (auto simp add: pad_row_def split: sum.splits)
  next
    case (Inr row)
    have len: "Suc j + length ss \<le> length (pseqs[j := row])"
      using Cons.prems by simp
    have z: "\<forall>i. Suc j \<le> i \<and> i < Suc j + length ss \<longrightarrow>
        (pseqs[j := row]) ! i = zero_rows dt maxlen nd"
      using Cons.prems by simp
    have step: "pad_loop dt maxlen nd (List.enumerate j (s # ss)) pseqs =
        pad_loop dt maxlen nd (List.enumerate (Suc j) ss) (pseqs[j := row])"
      using Inr zero by (auto simp add: pad_row_def split: sum.splits)
    have upd: "take (Suc j) (pseqs[j := row]) = take j pseqs @ [row]"
      using Cons.prems by (simp add: take_Suc_conv_app_nth)
    show ?thesis
      unfolding step Cons.IH [OF len z]
      using Inr upd by (simp split: sum.splits)
  qed
qed

lemma pad_3d_sequence_rows:
  "pad_3d_sequence seqs maxlen nd dt =
     (case collect (map (pad_row dt maxlen nd) seqs) of
        Inl e \<Rightarrow> Inl e
      | Inr rows \<Rightarrow> Inr \<lparr>t_dtype = dt, t_shape = (length seqs, maxlen, nd), t_data = rows\<rparr>)"
proof -
  have "pad_loop dt maxlen nd (List.enumerate 0 seqs) (np_zeros dt (length seqs) maxlen nd) =
     (case collect (map (pad_row dt maxlen nd) seqs) of
        Inl e \<Rightarrow> Inl e
      | Inr rows \<Rightarrow> Inr (take 0 (np_zeros dt (length seqs) maxlen nd) @ rows
            @ drop (0 + length seqs) (np_zeros dt (length seqs) maxlen nd)))"
    by (rule pad_loop_enumerate) (simp_all add: np_zeros_def zero_rows_def)
  then show ?thesis
    by (simp add: pad_3d_sequence_def np_zeros_def split: sum.splits)
qed

lemma pad_3d_sequence_Inr:
  "pad_3d_sequence seqs maxlen nd dt = Inr T \<longleftrightarrow>
     T = \<lparr>t_dtype = dt, t_shape = (length seqs, maxlen, nd), t_data = t_data T\<rparr> \<and>
     list_all2 (\<lambda>s row. pad_row dt maxlen nd s = Inr row) seqs (t_data T)"
proof (cases "collect (map (pad_row dt maxlen nd) seqs)")
  case (Inl e)
  then have "\<not> list_all2 (\<lambda>s row. pad_row dt maxlen nd s = Inr row) seqs (t_data T)"
    by (simp add: collect_map_Inr [symmetric])
  then show ?thesis
    using Inl by (simp add: pad_3d_sequence_rows)
next
  case (Inr rows)
  then have "list_all2 (\<lambda>s row. pad_row dt maxlen nd s = Inr row) seqs (t_data T)
      \<longleftrightarrow> t_data T = rows"
    by (auto simp add: collect_map_Inr [symmetric])
  then show ?thesis
    using Inr by (auto simp add: pad_3d_sequence_rows)
qed

lemma pad_row_empty_list:
  "pad_row dt maxlen nd (PyList []) = (if nd = 0 then Inr (zero_rows dt maxlen nd) else Inl ValueError)"
  by (simp add: pad_row_def py_suffix_def)

lemma length_py_suffix: "length (py_suffix maxlen s) = (if maxlen = 0 then length s else min maxlen (length s))"
  by (auto simp add: py_suffix_def)

lemma py_suffix_Nil: "py_suffix maxlen s = [] \<longleftrightarrow> s = []"
  by (cases s) (auto simp add: py_suffix_def)

lemma np_array_Inr_tokens:
  assumes "np_array dt s = Inr a"
  shows "(a = Empty1 \<and> s = PyList []) \<or> (\<exists>m. a = Matrix m (map (map (astype dt)) (tokens s)))"
proof (cases s)
  case (PyList xs)
  then show ?thesis using assms by (cases xs) (auto split: if_splits)
next
  case (Array2 c xs)
  then show ?thesis using assms by auto
qed

lemma tokens_seq_suffix: "tokens (seq_suffix maxlen s) = py_suffix maxlen (tokens s)"
  by (cases s) simp_all

lemma pad_row_Inr_eq:
  assumes "pad_row dt maxlen nd s = Inr row"
  shows "row = map (broadcast nd) (map (map (astype dt)) (take maxlen (py_suffix maxlen (tokens s))))
            @ replicate (maxlen - length (tokens s)) (replicate nd (np_zero dt))"
proof (cases "np_array dt (seq_suffix maxlen s)")
  case (Inl e)
  then show ?thesis using assms by (simp add: pad_row_def)
next
  case (Inr a)
  from np_array_Inr_tokens [OF Inr] show ?thesis
  proof
    assume "a = Empty1 \<and> seq_suffix maxlen s = PyList []"
    then have "tokens (seq_suffix maxlen s) = []" "a = Empty1" by simp_all
    then have "tokens s = []"
      by (simp add: tokens_seq_suffix py_suffix_Nil)
    then show ?thesis
      using assms Inr \<open>a = Empty1\<close>
      by (auto simp add: pad_row_def py_suffix_def zero_rows_def split: if_splits)
  next
    assume "\<exists>m. a = Matrix m (map (map (astype dt)) (tokens (seq_suffix maxlen s)))"
    then obtain m where a: "a = Matrix m (map (map (astype dt)) (py_suffix maxlen (tokens s)))"
      by (auto simp: tokens_seq_suffix)
    show ?thesis
      using assms Inr a
      by (auto simp add: pad_row_def zero_rows_def Let_def length_py_suffix take_map min_def
          split: if_splits)
  qed
qed


lemma pad_row_nth:
  assumes "pad_3d_sequence seqs maxlen nd dt = Inr T" and "i < length seqs"
  shows "pad_row dt maxlen nd (seqs ! i) = Inr (t_data T ! i)"
  using assms by (simp add: pad_3d_sequence_Inr list_all2_conv_all_nth)

lemma length_t_data:
  "pad_3d_sequence seqs maxlen nd dt = Inr T \<Longrightarrow> length (t_data T) = length seqs"
  by (simp add: pad_3d_sequence_Inr list_all2_conv_all_nth)

lemma conforms_astype:
  "conforms dt nd toks \<Longrightarrow> map (broadcast nd) (map (map (astype dt)) toks) = toks"
proof (induction toks)
  case Nil
  then show ?case by simp
next
  case (Cons tok toks)
  have elt: "dtype_of x = dt \<Longrightarrow> astype dt x = x" for x
    by (cases dt; cases x) simp_all
  from Cons.prems have all: "list_all (\<lambda>x. dtype_of x = dt) tok" and len: "length tok = nd"
    by (simp_all add: conforms_def)
  from all have "map (astype dt) tok = tok"
    by (induction tok) (simp_all add: elt)
  moreover have "broadcast nd tok = tok"
    using len by (cases tok) (auto simp add: broadcast_def)
  ultimately show ?case
    using Cons by (simp add: conforms_def)
qed

lemma conforms_drop: "conforms dt nd toks \<Longrightarrow> conforms dt nd (drop n toks)"
  by (simp add: conforms_def list_all_iff) (meson in_set_dropD)

lemma take_py_suffix:
  "take maxlen (py_suffix maxlen toks) = drop (length toks - maxlen) toks"
  by (simp add: py_suffix_def)

lemma pad_row_length:
  assumes "pad_row dt maxlen nd s = Inr row"
  shows "length row = maxlen"
  unfolding pad_row_Inr_eq [OF assms] take_py_suffix by simp

lemma pad_row_returns:
  assumes "0 < maxlen" and "paddable nd s"
  shows "\<exists>row. pad_row dt maxlen nd s = Inr row"
proof (cases s)
  case (PyList xs)
  with assms obtain r rs where xs: "py_suffix maxlen xs = r # rs"
    by (cases "py_suffix maxlen xs") (auto simp add: paddable_def py_suffix_Nil)
  have "set (py_suffix maxlen xs) \<subseteq> set xs"
    by (auto simp add: py_suffix_def dest: in_set_dropD)
  with assms PyList have "list_all (\<lambda>tok. length tok = nd) (r # rs)"
    unfolding xs [symmetric] by (auto simp add: paddable_def list_all_iff)
  moreover have "length (r # rs) \<le> maxlen"
    unfolding xs [symmetric] using assms by (simp add: length_py_suffix)
  ultimately show ?thesis
    using PyList xs by (auto simp add: pad_row_def list_all_iff min_def)
next
  case (Array2 c xs)
  have "length (py_suffix maxlen xs) \<le> maxlen"
    using assms by (simp add: length_py_suffix)
  then show ?thesis
    using Array2 assms by (auto simp add: pad_row_def paddable_def min_def)
qed

lemma pad_3d_sequence_returns:
  assumes "0 < maxlen" and "list_all (paddable nd) seqs"
  shows "\<exists>T. pad_3d_sequence seqs maxlen nd dt = Inr T"
proof -
  have "\<exists>rows. list_all2 (\<lambda>s row. pad_row dt maxlen nd s = Inr row) seqs rows"
    using assms(2)
  proof (induction seqs)
    case Nil
    then show ?case by simp
  next
    case (Cons s seqs)
    then obtain rows where "list_all2 (\<lambda>s row. pad_row dt maxlen nd s = Inr row) seqs rows"
      by auto
    moreover obtain row where "pad_row dt maxlen nd s = Inr row"
      using pad_row_returns [OF assms(1), of nd s dt] Cons.prems by auto
    ultimately have "list_all2 (\<lambda>s row. pad_row dt maxlen nd s = Inr row) (s # seqs) (row # rows)"
      by simp
    then show ?case by blast
  qed
  then obtain rows where "collect (map (pad_row dt maxlen nd) seqs) = Inr rows"
    by (auto simp add: collect_map_Inr)
  then show ?thesis
    by (simp add: pad_3d_sequence_rows)
qed

section \<open>Claims about pad\_3d\_sequence\<close>

text \<open>
  Every exception of the padding loop is a \<^verbatim>\<open>ValueError\<close>. A batch that holds an empty
  Python list raises it whenever \<open>nd > 0\<close>, whatever \<open>maxlen\<close> and the other sequences
  are; an empty array of \<open>nd\<close> columns is padded to zeros.
\<close>

lemma np_array_Inl:
  assumes "np_array dt s = Inl e"
  shows "e = ValueError"
proof (cases s)
  case (PyList xs)
  show ?thesis
  proof (cases xs)
    case Nil
    then show ?thesis using assms PyList by simp
  next
    case (Cons r rs)
    then show ?thesis using assms PyList by (simp split: if_splits)
  qed
next
  case (Array2 c xs)
  then show ?thesis using assms by simp
qed

lemma assign_prefix_Inl:
  assumes "assign_prefix maxlen nd old a = Inl e"
  shows "e = ValueError"
proof (cases a)
  case Empty1
  then show ?thesis using assms by (simp split: if_splits)
next
  case (Matrix m rows)
  then show ?thesis using assms by (simp add: Let_def split: if_splits)
qed

lemma pad_row_Inl:
  assumes "pad_row dt maxlen nd s = Inl e"
  shows "e = ValueError"
proof (cases "np_array dt (seq_suffix maxlen s)")
  case (Inl e')
  with assms have "e = e'"
    by (simp add: pad_row_def)
  with Inl show ?thesis
    by (simp add: np_array_Inl)
next
  case (Inr a)
  with assms have "assign_prefix maxlen nd (zero_rows dt maxlen nd) a = Inl e"
    by (simp add: pad_row_def)
  then show ?thesis
    by (rule assign_prefix_Inl)
qed

lemma pad_3d_sequence_empty_list:
  assumes "PyList [] \<in> set seqs" and "0 < nd"
  shows "pad_3d_sequence seqs maxlen nd dt = Inl ValueError"
proof -
  have "pad_row dt maxlen nd (PyList []) = Inl ValueError"
    using assms(2) by (simp add: pad_row_empty_list)
  with assms(1) obtain e where e: "collect (map (pad_row dt maxlen nd) seqs) = Inl e"
    using collect_map_raises [of "PyList []" seqs "pad_row dt maxlen nd" ValueError] by blast
  then obtain s where "pad_row dt maxlen nd s = Inl e"
    using collect_map_Inl [of "pad_row dt maxlen nd" seqs e] by blast
  then have "e = ValueError"
    by (rule pad_row_Inl)
  with e show ?thesis
    by (simp add: pad_3d_sequence_rows)
qed

lemma pad_row_empty_array:
  "pad_row dt maxlen nd (Array2 nd []) = Inr (zero_rows dt maxlen nd)"
  by (simp add: pad_row_def py_suffix_def)

text \<open>
  Claim C1. "For every call of \<^verbatim>\<open>pad_3d_sequence(seqs, maxlen, nd)\<close> in which some
  element of \<^verbatim>\<open>seqs\<close> is an empty sequence, the call raises no exception and the
  corresponding row of the output tensor is all zeros." The code does otherwise on the
  empty Python list: \<^verbatim>\<open>np.array([])\<close> has shape \<^verbatim>\<open>(0,)\<close>, which does not broadcast to
  the target \<^verbatim>\<open>pseqs[i, :0]\<close> of shape \<^verbatim>\<open>(0, nd)\<close> unless \<open>nd = 0\<close>. The call
  \<^verbatim>\<open>pad_3d_sequence([[]], 1, 1)\<close> raises \<^verbatim>\<open>ValueError\<close>.
\<close>

theorem C1_empty_sequence_raises:
  "pad_3d_sequence [PyList []] 1 1 Int32 = Inl ValueError"
  by (simp add: pad_3d_sequence_rows pad_row_empty_list)

text \<open>
  Claim C5. For every sequence of the input that is longer than \<open>maxlen\<close>, the
  corresponding row of the output is the last \<open>maxlen\<close> tokens of that sequence
  (truncation drops the beginning, never the end). The tokens are feature vectors of
  width \<open>nd\<close> and of the requested dtype, so that storing them does not convert them.
  The first part speaks of every call that returns; the second says that the call does
  return on every batch of paddable sequences when \<open>maxlen > 0\<close>.
\<close>

theorem C5_pre_truncation:
  "(\<forall>T. pad_3d_sequence seqs maxlen nd dt = Inr T \<longrightarrow>
      (\<forall>i < length seqs.
         maxlen < length (tokens (seqs ! i)) \<and> conforms dt nd (tokens (seqs ! i)) \<longrightarrow>
         t_data T ! i = drop (length (tokens (seqs ! i)) - maxlen) (tokens (seqs ! i))))
   \<and> (0 < maxlen \<and> list_all (paddable nd) seqs \<longrightarrow>
      (\<exists>T. pad_3d_sequence seqs maxlen nd dt = Inr T))"
proof (intro conjI allI impI)
  fix T i
  assume ret: "pad_3d_sequence seqs maxlen nd dt = Inr T" and i: "i < length seqs"
    and long: "maxlen < length (tokens (seqs ! i)) \<and> conforms dt nd (tokens (seqs ! i))"
  let ?toks = "tokens (seqs ! i)"
  have "conforms dt nd (drop (length ?toks - maxlen) ?toks)"
    using long by (simp add: conforms_drop)
  then have "map (broadcast nd) (map (map (astype dt)) (drop (length ?toks - maxlen) ?toks))
      = drop (length ?toks - maxlen) ?toks"
    by (rule conforms_astype)
  then show "t_data T ! i = drop (length ?toks - maxlen) ?toks"
    using pad_row_Inr_eq [OF pad_row_nth [OF ret i]] long
    by (simp add: take_py_suffix)
next
  assume "0 < maxlen \<and> list_all (paddable nd) seqs"
  then show "\<exists>T. pad_3d_sequence seqs maxlen nd dt = Inr T"
    using pad_3d_sequence_returns by blast
qed

theorem C5_pre_truncation_witness:
  "pad_3d_sequence [PyList [[IntS 1, IntS 2], [IntS 3, IntS 4], [IntS 5, IntS 6]], PyList [[IntS 7, IntS 8]]] 2 2 Int32
     = Inr \<lparr>t_dtype = Int32, t_shape = (2, 2, 2),
            t_data = [[[IntS 3, IntS 4], [IntS 5, IntS 6]], [[IntS 7, IntS 8], [IntS 0, IntS 0]]]\<rparr>
   \<and> [[IntS 3, IntS 4], [IntS 5, IntS 6]]
       = drop (3 - 2) [[IntS 1, IntS 2], [IntS 3, IntS 4], [IntS 5, IntS 6]]"
proof -
  let ?seqs = "[PyList [[IntS 1, IntS 2], [IntS 3, IntS 4], [IntS 5, IntS 6]], PyList [[IntS 7, IntS 8]]]"
  let ?T = "\<lparr>t_dtype = Int32, t_shape = (2, 2, 2),
            t_data = [[[IntS 3, IntS 4], [IntS 5, IntS 6]], [[IntS 7, IntS 8], [IntS 0, IntS 0]]]\<rparr>"
  have ret: "pad_3d_sequence ?seqs 2 2 Int32 = Inr ?T"
    by (simp add: pad_3d_sequence_rows pad_row_def zero_rows_def py_suffix_def broadcast_def eval_nat_numeral)
  have pre: "0 < length ?seqs"
    "2 < length (tokens (?seqs ! 0)) \<and> conforms Int32 2 (tokens (?seqs ! 0))"
    by (simp_all add: conforms_def)
  from C5_pre_truncation [of ?seqs 2 2 Int32] ret pre
  have "t_data ?T ! 0 = drop (length (tokens (?seqs ! 0)) - 2) (tokens (?seqs ! 0))"
    by blast
  with ret show ?thesis by simp
qed

section \<open>Element types\<close>

lemma dtype_of_astype: "dtype_of (astype dt x) = dt"
  by (cases dt; cases x) simp_all

lemma dtype_of_np_zero: "dtype_of (np_zero dt) = dt"
  by (cases dt) simp_all

lemma broadcast_all:
  "list_all P v \<Longrightarrow> list_all P (broadcast nd v)"
  by (cases v) (simp_all add: broadcast_def list_all_iff)

lemma pad_row_dtype:
  assumes "pad_row dt maxlen nd s = Inr row"
  shows "list_all (list_all (\<lambda>x. dtype_of x = dt)) row"
proof -
  let ?P = "\<lambda>x. dtype_of x = dt"
  have conv: "list_all ?P (broadcast nd (map (astype dt) v))" for v
    by (rule broadcast_all) (simp add: list_all_iff dtype_of_astype)
  have "list_all (list_all ?P) (map (broadcast nd) (map (map (astype dt)) X))" for X
    by (induction X) (simp_all add: conv)
  moreover have "list_all (list_all ?P) (replicate n (replicate nd (np_zero dt)))" for n
    by (simp add: list_all_iff dtype_of_np_zero)
  ultimately show ?thesis
    unfolding pad_row_Inr_eq [OF assms] by (simp only: list_all_append simp_thms)
qed

lemma list_all2_list_all_right:
  "list_all2 (\<lambda>x y. f x = Inr y) xs ys \<Longrightarrow> (\<And>x y. f x = Inr y \<Longrightarrow> P y) \<Longrightarrow> list_all P ys"
  by (induction xs ys rule: list_all2_induct) auto

lemma pad_graph_None:
  "pad_graph g p0 p1 fd = (g', None) \<longleftrightarrow>
     (\<exists>a b c d. pad_sequences (idx_rows (si0 g)) p0 = Inr a
        \<and> pad_sequences (idx_rows (si1 g)) p1 = Inr b
        \<and> pad_3d_sequence (feat_seqs (f0 g)) p0 fd Int32 = Inr c
        \<and> pad_3d_sequence (feat_seqs (f1 g)) p1 fd Int32 = Inr d
        \<and> g' = g\<lparr>si0 := IdxArray a, si1 := IdxArray b, f0 := FeatArray c, f1 := FeatArray d,
                  score := np_array_labels (score g)\<rparr>)"
  by (auto simp add: pad_graph_def Let_def split: sum.splits)

lemma trunc_5_2: "trunc_toward_zero (float_val (PyFloat (5 / 2))) = 2"
  unfolding trunc_toward_zero_def by (simp add: PyFloat_inverse floor_eq_iff)

text \<open>
  Claim C2, as stated: "the numeric dtype of the input sequences (integer or float) is
  preserved in the output tensor". It fails on a float input: the call
  \<^verbatim>\<open>pad_3d_sequence([[[2.5]]], 1, 1)\<close> returns the \<^verbatim>\<open>int32\<close> tensor \<^verbatim>\<open>[[[2]]]\<close>.
\<close>

theorem C2_float_input_counterexample:
  "pad_3d_sequence [PyList [[FloatS (PyFloat (5 / 2))]]] 1 1 Int32
     = Inr \<lparr>t_dtype = Int32, t_shape = (1, 1, 1), t_data = [[[IntS 2]]]\<rparr>
   \<and> dtype_of (FloatS (PyFloat (5 / 2))) = Float64"
  by (simp add: pad_3d_sequence_rows pad_row_def zero_rows_def py_suffix_def broadcast_def trunc_5_2)

lemma example_graph_padded:
  "pad_graph example_graph 2 2 1 =
     (\<lparr>si0 = IdxArray \<lparr>m_dtype = Int32, m_shape = (2, 2), m_data = [[IntS 5, IntS 6], [IntS 7, IntS 0]]\<rparr>,
       si1 = IdxArray \<lparr>m_dtype = Int32, m_shape = (2, 2), m_data = [[IntS 1, IntS 0], [IntS 0, IntS 0]]\<rparr>,
       f0 = FeatArray \<lparr>t_dtype = Int32, t_shape = (2, 2, 1),
              t_data = [[[IntS 0], [IntS 1]], [[IntS 1], [IntS 0]]]\<rparr>,
       f1 = FeatArray \<lparr>t_dtype = Int32, t_shape = (2, 2, 1),
              t_data = [[[IntS 0], [IntS 0]], [[IntS 1], [IntS 0]]]\<rparr>,
       score = LabelArray [IntS 1, IntS 0],
       rest = [''s0'' \<mapsto> [''a'', ''b'']]\<rparr>, None)"
  by (simp add: example_graph_def pad_graph_def pad_sequences_def pad_seq_row_def
      pad_3d_sequence_rows pad_row_def zero_rows_def py_suffix_def broadcast_def np_array_1d_def
      eval_nat_numeral)

lemma pad_3d_sequence_dtype:
  assumes "pad_3d_sequence seqs maxlen nd dt = Inr T"
  shows "t_dtype T = dt \<and> list_all (list_all (list_all (\<lambda>x. dtype_of x = dt))) (t_data T)"
proof
  from assms have T: "T = \<lparr>t_dtype = dt, t_shape = (length seqs, maxlen, nd), t_data = t_data T\<rparr>"
    by (simp add: pad_3d_sequence_Inr)
  show "t_dtype T = dt"
    by (subst T) simp
  from assms have "list_all2 (\<lambda>s row. pad_row dt maxlen nd s = Inr row) seqs (t_data T)"
    by (simp add: pad_3d_sequence_Inr)
  then show "list_all (list_all (list_all (\<lambda>x. dtype_of x = dt))) (t_data T)"
    by (rule list_all2_list_all_right) (rule pad_row_dtype)
qed

text \<open>
  Claim C2, amended. The element type of the tensor that \<^verbatim>\<open>pad_3d_sequence\<close> returns is
  its \<^verbatim>\<open>dtype\<close> argument, \<^verbatim>\<open>int32\<close> by default, whatever the element type of the
  input sequences: the tensor and each of its elements have that dtype. \<^verbatim>\<open>pad_graph\<close>
  passes no \<^verbatim>\<open>dtype\<close>, so the padded \<^verbatim>\<open>f0\<close> and \<^verbatim>\<open>f1\<close> are always \<^verbatim>\<open>int32\<close> tensors.
  The first and the last part speak of every call that returns; the second says that
  \<^verbatim>\<open>pad_3d_sequence\<close> does return on every batch of paddable sequences when \<open>maxlen > 0\<close>.
\<close>

theorem C2_output_dtype_is_argument:
  "(\<forall>T. pad_3d_sequence seqs maxlen nd dt = Inr T \<longrightarrow>
      t_dtype T = dt \<and> list_all (list_all (list_all (\<lambda>x. dtype_of x = dt))) (t_data T))
   \<and> (0 < maxlen \<and> list_all (paddable nd) seqs \<longrightarrow>
      (\<exists>T. pad_3d_sequence seqs maxlen nd dt = Inr T))
   \<and> (\<forall>g'. pad_graph g p0 p1 flagsdim = (g', None) \<longrightarrow>
      (\<exists>c d. f0 g' = FeatArray c \<and> f1 g' = FeatArray d
         \<and> t_dtype c = Int32 \<and> t_dtype d = Int32
         \<and> list_all (list_all (list_all (\<lambda>x. dtype_of x = Int32))) (t_data c)
         \<and> list_all (list_all (list_all (\<lambda>x. dtype_of x = Int32))) (t_data d)))"
proof (intro conjI allI impI)
  fix T
  assume ret: "pad_3d_sequence seqs maxlen nd dt = Inr T"
  then show "t_dtype T = dt"
    by (simp add: pad_3d_sequence_dtype)
  from ret show "list_all (list_all (list_all (\<lambda>x. dtype_of x = dt))) (t_data T)"
    by (simp add: pad_3d_sequence_dtype)
next
  assume "0 < maxlen \<and> list_all (paddable nd) seqs"
  then show "\<exists>T. pad_3d_sequence seqs maxlen nd dt = Inr T"
    using pad_3d_sequence_returns by blast
next
  fix g'
  assume "pad_graph g p0 p1 flagsdim = (g', None)"
  then obtain a b c d where
    c: "pad_3d_sequence (feat_seqs (f0 g)) p0 flagsdim Int32 = Inr c" and
    d: "pad_3d_sequence (feat_seqs (f1 g)) p1 flagsdim Int32 = Inr d" and
    g': "g' = g\<lparr>si0 := IdxArray a, si1 := IdxArray b, f0 := FeatArray c, f1 := FeatArray d,
                  score := np_array_labels (score g)\<rparr>"
    unfolding pad_graph_None by blast
  show "\<exists>c d. f0 g' = FeatArray c \<and> f1 g' = FeatArray d
         \<and> t_dtype c = Int32 \<and> t_dtype d = Int32
         \<and> list_all (list_all (list_all (\<lambda>x. dtype_of x = Int32))) (t_data c)
         \<and> list_all (list_all (list_all (\<lambda>x. dtype_of x = Int32))) (t_data d)"
    using g' pad_3d_sequence_dtype [OF c] pad_3d_sequence_dtype [OF d] by simp
qed

theorem C2_output_dtype_is_argument_witness:
  "0 < (1::nat) \<and> list_all (paddable 1) [PyList [[FloatS (PyFloat (5 / 2))]]]
   \<and> pad_3d_sequence [PyList [[FloatS (PyFloat (5 / 2))]]] 1 1 Int32
     = Inr \<lparr>t_dtype = Int32, t_shape = (1, 1, 1), t_data = [[[IntS 2]]]\<rparr>
   \<and> t_dtype \<lparr>t_dtype = Int32, t_shape = (1, 1, 1), t_data = [[[IntS 2]]]\<rparr> = Int32
   \<and> list_all (list_all (list_all (\<lambda>x. dtype_of x = Int32))) [[[IntS 2]]]
   \<and> pad_graph example_graph 2 2 1 = (\<lparr>si0 = IdxArray \<lparr>m_dtype = Int32, m_shape = (2, 2), m_data = [[IntS 5, IntS 6], [IntS 7, IntS 0]]\<rparr>,
       si1 = IdxArray \<lparr>m_dtype = Int32, m_shape = (2, 2), m_data = [[IntS 1, IntS 0], [IntS 0, IntS 0]]\<rparr>,
       f0 = FeatArray \<lparr>t_dtype = Int32, t_shape = (2, 2, 1),
              t_data = [[[IntS 0], [IntS 1]], [[IntS 1], [IntS 0]]]\<rparr>,
       f1 = FeatArray \<lparr>t_dtype = Int32, t_shape = (2, 2, 1),
              t_data = [[[IntS 0], [IntS 0]], [[IntS 1], [IntS 0]]]\<rparr>,
       score = LabelArray [IntS 1, IntS 0],
       rest = [''s0'' \<mapsto> [''a'', ''b'']]\<rparr>, None)
   \<and> (\<exists>c d. f0 \<lparr>si0 = IdxArray \<lparr>m_dtype = Int32, m_shape = (2, 2), m_data = [[IntS 5, IntS 6], [IntS 7, IntS 0]]\<rparr>,
       si1 = IdxArray \<lparr>m_dtype = Int32, m_shape = (2, 2), m_data = [[IntS 1, IntS 0], [IntS 0, IntS 0]]\<rparr>,
       f0 = FeatArray \<lparr>t_dtype = Int32, t_shape = (2, 2, 1),
              t_data = [[[IntS 0], [IntS 1]], [[IntS 1], [IntS 0]]]\<rparr>,
       f1 = FeatArray \<lparr>t_dtype = Int32, t_shape = (2, 2, 1),
              t_data = [[[IntS 0], [IntS 0]], [[IntS 1], [IntS 0]]]\<rparr>,
       score = LabelArray [IntS 1, IntS 0],
       rest = [''s0'' \<mapsto> [''a'', ''b'']]\<rparr> = FeatArray c \<and> f1 \<lparr>si0 = IdxArray \<lparr>m_dtype = Int32, m_shape = (2, 2), m_data = [[IntS 5, IntS 6], [IntS 7, IntS 0]]\<rparr>,
       si1 = IdxArray \<lparr>m_dtype = Int32, m_shape = (2, 2), m_data = [[IntS 1, IntS 0], [IntS 0, IntS 0]]\<rparr>,
       f0 = FeatArray \<lparr>t_dtype = Int32, t_shape = (2, 2, 1),
              t_data = [[[IntS 0], [IntS 1]], [[IntS 1], [IntS 0]]]\<rparr>,
       f1 = FeatArray \<lparr>t_dtype = Int32, t_shape = (2, 2, 1),
              t_data = [[[IntS 0], [IntS 0]], [[IntS 1], [IntS 0]]]\<rparr>,
       score = LabelArray [IntS 1, IntS 0],
       rest = [''s0'' \<mapsto> [''a'', ''b'']]\<rparr> = FeatArray d
         \<and> t_dtype c = Int32 \<and> t_dtype d = Int32)"
proof -
  let ?T = "\<lparr>t_dtype = Int32, t_shape = (1, 1, 1), t_data = [[[IntS 2]]]\<rparr>"
  note inst = C2_output_dtype_is_argument [of "[PyList [[FloatS (PyFloat (5 / 2))]]]" 1 1 Int32
      example_graph 2 2 1]
  have pre: "0 < (1::nat) \<and> list_all (paddable 1) [PyList [[FloatS (PyFloat (5 / 2))]]]"
    by (simp add: paddable_def)
  with inst obtain T where "pad_3d_sequence [PyList [[FloatS (PyFloat (5 / 2))]]] 1 1 Int32 = Inr T"
    by blast
  have ret: "pad_3d_sequence [PyList [[FloatS (PyFloat (5 / 2))]]] 1 1 Int32 = Inr ?T"
    by (simp add: pad_3d_sequence_rows pad_row_def zero_rows_def py_suffix_def broadcast_def trunc_5_2)
  have padded: "pad_graph example_graph 2 2 1 = (\<lparr>si0 = IdxArray \<lparr>m_dtype = Int32, m_shape = (2, 2), m_data = [[IntS 5, IntS 6], [IntS 7, IntS 0]]\<rparr>,
       si1 = IdxArray \<lparr>m_dtype = Int32, m_shape = (2, 2), m_data = [[IntS 1, IntS 0], [IntS 0, IntS 0]]\<rparr>,
       f0 = FeatArray \<lparr>t_dtype = Int32, t_shape = (2, 2, 1),
              t_data = [[[IntS 0], [IntS 1]], [[IntS 1], [IntS 0]]]\<rparr>,
       f1 = FeatArray \<lparr>t_dtype = Int32, t_shape = (2, 2, 1),
              t_data = [[[IntS 0], [IntS 0]], [[IntS 1], [IntS 0]]]\<rparr>,
       score = LabelArray [IntS 1, IntS 0],
       rest = [''s0'' \<mapsto> [''a'', ''b'']]\<rparr>, None)"
    by (rule example_graph_padded)
  from inst ret
  have "t_dtype ?T = Int32 \<and> list_all (list_all (list_all (\<lambda>x. dtype_of x = Int32))) (t_data ?T)"
    by blast
  moreover from inst padded
  have "\<exists>c d. f0 \<lparr>si0 = IdxArray \<lparr>m_dtype = Int32, m_shape = (2, 2), m_data = [[IntS 5, IntS 6], [IntS 7, IntS 0]]\<rparr>,
       si1 = IdxArray \<lparr>m_dtype = Int32, m_shape = (2, 2), m_data = [[IntS 1, IntS 0], [IntS 0, IntS 0]]\<rparr>,
       f0 = FeatArray \<lparr>t_dtype = Int32, t_shape = (2, 2, 1),
              t_data = [[[IntS 0], [IntS 1]], [[IntS 1], [IntS 0]]]\<rparr>,
       f1 = FeatArray \<lparr>t_dtype = Int32, t_shape = (2, 2, 1),
              t_data = [[[IntS 0], [IntS 0]], [[IntS 1], [IntS 0]]]\<rparr>,
       score = LabelArray [IntS 1, IntS 0],
       rest = [''s0'' \<mapsto> [''a'', ''b'']]\<rparr> = FeatArray c \<and> f1 \<lparr>si0 = IdxArray \<lparr>m_dtype = Int32, m_shape = (2, 2), m_data = [[IntS 5, IntS 6], [IntS 7, IntS 0]]\<rparr>,
       si1 = IdxArray \<lparr>m_dtype = Int32, m_shape = (2, 2), m_data = [[IntS 1, IntS 0], [IntS 0, IntS 0]]\<rparr>,
       f0 = FeatArray \<lparr>t_dtype = Int32, t_shape = (2, 2, 1),
              t_data = [[[IntS 0], [IntS 1]], [[IntS 1], [IntS 0]]]\<rparr>,
       f1 = FeatArray \<lparr>t_dtype = Int32, t_shape = (2, 2, 1),
              t_data = [[[IntS 0], [IntS 0]], [[IntS 1], [IntS 0]]]\<rparr>,
       score = LabelArray [IntS 1, IntS 0],
       rest = [''s0'' \<mapsto> [''a'', ''b'']]\<rparr> = FeatArray d
         \<and> t_dtype c = Int32 \<and> t_dtype d = Int32"
    by blast
  ultimately show ?thesis
    using ret padded pre by simp
qed

lemma np_array_widths:
  assumes "np_array dt s = Inr (Matrix m rows)" and "wf_seq s"
  shows "list_all (\<lambda>r. length r = m) rows"
proof (cases s)
  case (PyList xs)
  then show ?thesis
    using assms by (cases xs) (auto simp add: list_all_iff split: if_splits)
next
  case (Array2 c xs)
  then show ?thesis
    using assms by (auto simp add: list_all_iff)
qed

lemma wf_seq_suffix: "wf_seq s \<Longrightarrow> wf_seq (seq_suffix maxlen s)"
  by (cases s) (auto simp add: py_suffix_def list_all_iff dest: in_set_dropD)

lemma broadcast_width:
  "length v = m \<Longrightarrow> m = 1 \<or> m = nd \<Longrightarrow> length (broadcast nd v) = nd"
  by (auto simp add: broadcast_def)

lemma pad_row_width:
  assumes "pad_row dt maxlen nd s = Inr row" and "wf_seq s"
  shows "list_all (\<lambda>tok. length tok = nd) row"
proof (cases "np_array dt (seq_suffix maxlen s)")
  case (Inl e)
  then show ?thesis using assms by (simp add: pad_row_def)
next
  case (Inr a)
  show ?thesis
  proof (cases a)
    case Empty1
    then show ?thesis
      using assms Inr by (auto simp add: pad_row_def zero_rows_def list_all_iff split: if_splits)
  next
    case (Matrix m rows)
    have w: "list_all (\<lambda>r. length r = m) rows"
      using np_array_widths [OF Inr [unfolded Matrix] wf_seq_suffix [OF assms(2)]] .
    from assms(1) Inr Matrix
    have m: "m = 1 \<or> m = nd"
      and row: "row = map (broadcast nd) (take (min (length rows) maxlen) rows)
          @ drop (min (length rows) maxlen) (zero_rows dt maxlen nd)"
      by (auto simp add: pad_row_def Let_def split: if_splits)
    have "length (broadcast nd r) = nd" if "r \<in> set rows" for r
      using w that m by (intro broadcast_width [of r m]) (auto simp add: list_all_iff)
    moreover have "length z = nd" if "z \<in> set (zero_rows dt maxlen nd)" for z
      using that by (auto simp add: zero_rows_def)
    ultimately show ?thesis
      unfolding row by (auto simp add: list_all_iff dest!: in_set_takeD in_set_dropD)
  qed
qed

text \<open>
  Claim C6. For every sequence of the input that is shorter than \<open>maxlen\<close>, the
  corresponding row of the output is that sequence, left-aligned, followed by zero
  vectors; the shape of the output is exactly \<^verbatim>\<open>(len(seqs), maxlen, nd)\<close> whatever the
  lengths of the sequences, and the data has that shape: \<^verbatim>\<open>len(seqs)\<close> rows of \<open>maxlen\<close>
  tokens of \<open>nd\<close> features. The first part speaks of every call that returns; the
  second says that the call does return on every batch of paddable sequences when
  \<open>maxlen > 0\<close>.
\<close>

theorem C6_post_padding_and_shape:
  "(\<forall>T. pad_3d_sequence seqs maxlen nd dt = Inr T \<longrightarrow>
      t_shape T = (length seqs, maxlen, nd)
      \<and> length (t_data T) = length seqs
      \<and> list_all (\<lambda>row. length row = maxlen) (t_data T)
      \<and> (list_all wf_seq seqs \<longrightarrow> list_all (list_all (\<lambda>tok. length tok = nd)) (t_data T))
      \<and> (\<forall>i < length seqs.
           length (tokens (seqs ! i)) < maxlen \<and> conforms dt nd (tokens (seqs ! i)) \<longrightarrow>
           t_data T ! i = tokens (seqs ! i)
              @ replicate (maxlen - length (tokens (seqs ! i))) (replicate nd (np_zero dt))))
   \<and> (0 < maxlen \<and> list_all (paddable nd) seqs \<longrightarrow>
      (\<exists>T. pad_3d_sequence seqs maxlen nd dt = Inr T))"
proof (intro conjI allI impI)
  fix T
  assume ret: "pad_3d_sequence seqs maxlen nd dt = Inr T"
  then have T: "T = \<lparr>t_dtype = dt, t_shape = (length seqs, maxlen, nd), t_data = t_data T\<rparr>"
    and rows: "list_all2 (\<lambda>s row. pad_row dt maxlen nd s = Inr row) seqs (t_data T)"
    by (simp_all add: pad_3d_sequence_Inr)
  show "t_shape T = (length seqs, maxlen, nd)"
    by (subst T) simp
  show "length (t_data T) = length seqs"
    using ret by (rule length_t_data)
  show "list_all (\<lambda>row. length row = maxlen) (t_data T)"
    using rows by (rule list_all2_list_all_right) (rule pad_row_length)
  {
    assume wf: "list_all wf_seq seqs"
    have "list_all (\<lambda>tok. length tok = nd) (t_data T ! i)" if "i < length seqs" for i
      using pad_row_nth [OF ret that] wf that
      by (intro pad_row_width [of dt maxlen nd "seqs ! i"]) (auto simp add: list_all_length)
    then show "list_all (list_all (\<lambda>tok. length tok = nd)) (t_data T)"
      using length_t_data [OF ret] by (simp add: list_all_length)
  }
  {
    fix i
    assume i: "i < length seqs"
      and short: "length (tokens (seqs ! i)) < maxlen \<and> conforms dt nd (tokens (seqs ! i))"
    let ?toks = "tokens (seqs ! i)"
    have "map (broadcast nd) (map (map (astype dt)) ?toks) = ?toks"
      using short by (intro conforms_astype) simp
    then show "t_data T ! i = ?toks @ replicate (maxlen - length ?toks) (replicate nd (np_zero dt))"
      using pad_row_Inr_eq [OF pad_row_nth [OF ret i]] short
      by (simp add: take_py_suffix)
  }
next
  assume "0 < maxlen \<and> list_all (paddable nd) seqs"
  then show "\<exists>T. pad_3d_sequence seqs maxlen nd dt = Inr T"
    using pad_3d_sequence_returns by blast
qed

theorem C6_post_padding_and_shape_witness:
  "pad_3d_sequence [PyList [[IntS 1, IntS 2], [IntS 3, IntS 4], [IntS 5, IntS 6]], PyList [[IntS 7, IntS 8]]] 2 2 Int32
     = Inr \<lparr>t_dtype = Int32, t_shape = (2, 2, 2),
            t_data = [[[IntS 3, IntS 4], [IntS 5, IntS 6]], [[IntS 7, IntS 8], [IntS 0, IntS 0]]]\<rparr>
   \<and> [[IntS 7, IntS 8], [IntS 0, IntS 0]] = [[IntS 7, IntS 8]] @ replicate (2 - 1) (replicate 2 (np_zero Int32))"
proof -
  let ?seqs = "[PyList [[IntS 1, IntS 2], [IntS 3, IntS 4], [IntS 5, IntS 6]], PyList [[IntS 7, IntS 8]]]"
  let ?T = "\<lparr>t_dtype = Int32, t_shape = (2, 2, 2),
            t_data = [[[IntS 3, IntS 4], [IntS 5, IntS 6]], [[IntS 7, IntS 8], [IntS 0, IntS 0]]]\<rparr>"
  have pre: "0 < (2::nat) \<and> list_all (paddable 2) ?seqs"
    by (simp add: paddable_def)
  with C6_post_padding_and_shape [of ?seqs 2 2 Int32]
  obtain T where ret: "pad_3d_sequence ?seqs 2 2 Int32 = Inr T"
    by blast
  have val: "pad_3d_sequence ?seqs 2 2 Int32 = Inr ?T"
    by (simp add: pad_3d_sequence_rows pad_row_def zero_rows_def py_suffix_def broadcast_def eval_nat_numeral)
  have hyp: "1 < length ?seqs"
    "length (tokens (?seqs ! 1)) < 2 \<and> conforms Int32 2 (tokens (?seqs ! 1))"
    by (simp_all add: conforms_def)
  from C6_post_padding_and_shape [of ?seqs 2 2 Int32] val hyp
  have "t_data ?T ! 1 = tokens (?seqs ! 1)
      @ replicate (2 - length (tokens (?seqs ! 1))) (replicate 2 (np_zero Int32))"
    by blast
  with val show ?thesis by simp
qed

section \<open>Padding what is already padded\<close>

lemma astype_fixed: "dtype_of x = dt \<Longrightarrow> astype dt x = x"
  by (cases dt; cases x) simp_all

lemma map_astype_fixed: "list_all (\<lambda>x. dtype_of x = dt) v \<Longrightarrow> map (astype dt) v = v"
  by (induction v) (simp_all add: astype_fixed)

lemma pad_seq_row_shape:
  assumes "pad_seq_row maxlen s = Inr row"
  shows "length row = maxlen \<and> list_all (\<lambda>x. dtype_of x = Int32) row"
proof (cases "s = []")
  case True
  then show ?thesis
    using assms by (auto simp add: pad_seq_row_def list_all_iff)
next
  case False
  let ?trunc = "map (astype Int32) (py_suffix maxlen s)"
  let ?t = "min (length ?trunc) maxlen"
  from assms False have row: "row = take ?t ?trunc @ drop ?t (replicate maxlen (np_zero Int32))"
    by (simp add: pad_seq_row_def Let_def split: if_splits)
  have "list_all (\<lambda>x. dtype_of x = Int32) ?trunc"
    by (simp add: list_all_iff dtype_of_astype)
  then have "list_all (\<lambda>x. dtype_of x = Int32) (take ?t ?trunc)"
    by (metis append_take_drop_id list_all_append)
  then show ?thesis
    unfolding row by (auto simp add: list_all_iff)
qed

lemma pad_seq_row_fixed:
  assumes "length row = maxlen" and "list_all (\<lambda>x. dtype_of x = Int32) row"
  shows "pad_seq_row maxlen row = Inr row"
proof (cases "row = []")
  case True
  then show ?thesis using assms by (simp add: pad_seq_row_def)
next
  case False
  then have "0 < maxlen" using assms by auto
  then have "py_suffix maxlen row = row"
    using assms by (simp add: py_suffix_def)
  then show ?thesis
    using False assms by (simp add: pad_seq_row_def map_astype_fixed)
qed

lemma pad_sequences_Inr:
  "pad_sequences xs p = Inr a \<longleftrightarrow>
     a = \<lparr>m_dtype = Int32, m_shape = (length xs, p), m_data = m_data a\<rparr> \<and>
     list_all2 (\<lambda>s row. pad_seq_row p s = Inr row) xs (m_data a)"
proof (cases "collect (map (pad_seq_row p) xs)")
  case (Inl e)
  then have "\<not> list_all2 (\<lambda>s row. pad_seq_row p s = Inr row) xs (m_data a)"
    by (simp add: collect_map_Inr [symmetric])
  then show ?thesis
    using Inl by (simp add: pad_sequences_def)
next
  case (Inr rows)
  then have "list_all2 (\<lambda>s row. pad_seq_row p s = Inr row) xs (m_data a) \<longleftrightarrow> m_data a = rows"
    by (auto simp add: collect_map_Inr [symmetric])
  then show ?thesis
    using Inr by (auto simp add: pad_sequences_def)
qed

lemma list_all2_fixed:
  "list_all2 (\<lambda>x y. f x = Inr y) xs ys \<Longrightarrow> (\<And>x y. f x = Inr y \<Longrightarrow> h y = Inr y)
    \<Longrightarrow> list_all2 (\<lambda>x y. h x = Inr y) ys ys"
  by (induction xs ys rule: list_all2_induct) auto

lemma pad_sequences_idem:
  assumes "pad_sequences xs p = Inr a"
  shows "pad_sequences (m_data a) p = Inr a"
proof -
  from assms have a: "a = \<lparr>m_dtype = Int32, m_shape = (length xs, p), m_data = m_data a\<rparr>"
    and rows: "list_all2 (\<lambda>s row. pad_seq_row p s = Inr row) xs (m_data a)"
    by (simp_all add: pad_sequences_Inr)
  have "list_all2 (\<lambda>s row. pad_seq_row p s = Inr row) (m_data a) (m_data a)"
    using rows by (rule list_all2_fixed) (blast intro: pad_seq_row_fixed dest: pad_seq_row_shape)
  moreover have "length (m_data a) = length xs"
    using rows by (simp add: list_all2_lengthD)
  ultimately show ?thesis
    using a by (subst pad_sequences_Inr) simp
qed

lemma broadcast_idem: "broadcast nd (broadcast nd v) = broadcast nd v"
  by (cases "nd = 1") (auto simp add: broadcast_def)

lemma pad_row_fixed:
  assumes "pad_row dt maxlen nd s = Inr row"
  shows "pad_row dt maxlen nd (Array2 nd row) = Inr row"
proof -
  have len: "length row = maxlen"
    using assms by (rule pad_row_length)
  then have suf: "py_suffix maxlen row = row"
    by (auto simp add: py_suffix_def)
  have "list_all (list_all (\<lambda>x. dtype_of x = dt)) row"
    using assms by (rule pad_row_dtype)
  then have conv: "map (map (astype dt)) row = row"
    by (induction row) (simp_all add: map_astype_fixed)
  have "broadcast nd (replicate nd z) = replicate nd z" for z :: scalar
    by (cases "nd = 1") (auto simp add: broadcast_def)
  then have "map (broadcast nd) row = row"
    unfolding pad_row_Inr_eq [OF assms] by (simp add: broadcast_idem map_idI)
  then show ?thesis
    using len suf conv by (simp add: pad_row_def zero_rows_def)
qed

lemma pad_3d_sequence_idem:
  assumes "pad_3d_sequence seqs p nd dt = Inr c"
  shows "pad_3d_sequence (feat_seqs (FeatArray c)) p nd dt = Inr c"
proof -
  from assms have c: "c = \<lparr>t_dtype = dt, t_shape = (length seqs, p, nd), t_data = t_data c\<rparr>"
    and rows: "list_all2 (\<lambda>s row. pad_row dt p nd s = Inr row) seqs (t_data c)"
    by (simp_all add: pad_3d_sequence_Inr)
  have sh: "snd (snd (t_shape c)) = nd"
    by (subst c) simp
  have "list_all2 (\<lambda>row row'. pad_row dt p nd (Array2 nd row) = Inr row') (t_data c) (t_data c)"
    using rows by (rule list_all2_fixed) (rule pad_row_fixed)
  then have "list_all2 (\<lambda>s row. pad_row dt p nd s = Inr row) (map (Array2 nd) (t_data c)) (t_data c)"
    by (simp add: list_all2_map1)
  moreover have "length (t_data c) = length seqs"
    using rows by (simp add: list_all2_lengthD)
  ultimately show ?thesis
    using c sh by (subst pad_3d_sequence_Inr) simp
qed

section \<open>Claims about pad\_graph\<close>

text \<open>
  Keras' padding of the index sequences returns for every pad length above 0: the row
  of a sequence is its last \<open>maxlen\<close> indices followed by zeros.
\<close>

lemma pad_seq_row_returns:
  assumes "0 < maxlen"
  shows "pad_seq_row maxlen s
    = Inr (map (astype Int32) (drop (length s - maxlen) s)
           @ replicate (maxlen - length s) (np_zero Int32))"
proof (cases "s = []")
  case True
  then show ?thesis by (simp add: pad_seq_row_def)
next
  case False
  have suf: "py_suffix maxlen s = drop (length s - maxlen) s"
    using assms by (simp add: py_suffix_def)
  show ?thesis
    using False by (auto simp add: pad_seq_row_def suf Let_def min_def)
qed

lemma pad_sequences_returns:
  assumes "0 < p"
  shows "\<exists>a. pad_sequences xs p = Inr a"
proof -
  have "list_all2 (\<lambda>s row. pad_seq_row p s = Inr row) xs
      (map (\<lambda>s. map (astype Int32) (drop (length s - p) s)
           @ replicate (p - length s) (np_zero Int32)) xs)"
    by (simp add: list_all2_map2 list_all2_same pad_seq_row_returns [OF assms])
  then obtain rows where "collect (map (pad_seq_row p) xs) = Inr rows"
    unfolding collect_map_Inr [symmetric] by blast
  then show ?thesis
    by (simp add: pad_sequences_def)
qed

lemma pad_graph_returns:
  assumes "pad_sequences (idx_rows (si0 g)) p0 = Inr a"
    and "pad_sequences (idx_rows (si1 g)) p1 = Inr b"
    and "pad_3d_sequence (feat_seqs (f0 g)) p0 fd Int32 = Inr c"
    and "pad_3d_sequence (feat_seqs (f1 g)) p1 fd Int32 = Inr d"
  shows "pad_graph g p0 p1 fd
    = (\<lparr>si0 = IdxArray a, si1 = IdxArray b, f0 = FeatArray c, f1 = FeatArray d,
        score = np_array_labels (score g), rest = rest g\<rparr>, None)"
proof -
  have "pad_graph g p0 p1 fd
    = (g\<lparr>si0 := IdxArray a, si1 := IdxArray b, f0 := FeatArray c, f1 := FeatArray d,
            score := np_array_labels (score g)\<rparr>, None)"
    unfolding pad_graph_None using assms by blast
  moreover have "g\<lparr>si0 := IdxArray a, si1 := IdxArray b, f0 := FeatArray c, f1 := FeatArray d,
            score := np_array_labels (score g)\<rparr>
      = \<lparr>si0 = IdxArray a, si1 = IdxArray b, f0 = FeatArray c, f1 = FeatArray d,
         score = np_array_labels (score g), rest = rest g\<rparr>"
    by (cases g) simp
  ultimately show ?thesis by simp
qed

text \<open>
  Claim C9. \<^verbatim>\<open>pad_graph\<close> updates its dictionary in place. Every entry other than \<^verbatim>\<open>si0\<close>,
  \<^verbatim>\<open>si1\<close>, \<^verbatim>\<open>f0\<close>, \<^verbatim>\<open>f1\<close> and \<^verbatim>\<open>score\<close> is as it was, also when the call raises. The
  call returns normally exactly when the four paddings succeed, and then those five
  entries, and no other, have been replaced: by the padded index matrices, the padded
  feature tensors and the label array. The paddings do succeed for pad lengths above 0
  on feature sequences that are non-empty lists of vectors of width \<^verbatim>\<open>flagsdim\<close>.
\<close>

theorem C9_pad_graph_frame:
  "rest (fst (pad_graph g p0 p1 flagsdim)) = rest g
   \<and> (\<forall>g'. pad_graph g p0 p1 flagsdim = (g', None) \<longrightarrow>
        (\<exists>a b c d.
           pad_sequences (idx_rows (si0 g)) p0 = Inr a
         \<and> pad_sequences (idx_rows (si1 g)) p1 = Inr b
         \<and> pad_3d_sequence (feat_seqs (f0 g)) p0 flagsdim Int32 = Inr c
         \<and> pad_3d_sequence (feat_seqs (f1 g)) p1 flagsdim Int32 = Inr d
         \<and> g' = \<lparr>si0 = IdxArray a, si1 = IdxArray b, f0 = FeatArray c, f1 = FeatArray d,
                  score = np_array_labels (score g), rest = rest g\<rparr>))
   \<and> (\<forall>a b c d.
           pad_sequences (idx_rows (si0 g)) p0 = Inr a
         \<and> pad_sequences (idx_rows (si1 g)) p1 = Inr b
         \<and> pad_3d_sequence (feat_seqs (f0 g)) p0 flagsdim Int32 = Inr c
         \<and> pad_3d_sequence (feat_seqs (f1 g)) p1 flagsdim Int32 = Inr d
         \<longrightarrow> pad_graph g p0 p1 flagsdim
               = (\<lparr>si0 = IdxArray a, si1 = IdxArray b, f0 = FeatArray c, f1 = FeatArray d,
                   score = np_array_labels (score g), rest = rest g\<rparr>, None))
   \<and> (0 < p0 \<and> 0 < p1
        \<and> list_all (paddable flagsdim) (feat_seqs (f0 g))
        \<and> list_all (paddable flagsdim) (feat_seqs (f1 g))
        \<longrightarrow> snd (pad_graph g p0 p1 flagsdim) = None)"
proof (intro conjI allI impI)
  show "rest (fst (pad_graph g p0 p1 flagsdim)) = rest g"
    by (simp add: pad_graph_def Let_def split: sum.splits)
next
  fix g'
  assume "pad_graph g p0 p1 flagsdim = (g', None)"
  then obtain a b c d where
    "pad_sequences (idx_rows (si0 g)) p0 = Inr a"
    "pad_sequences (idx_rows (si1 g)) p1 = Inr b"
    "pad_3d_sequence (feat_seqs (f0 g)) p0 flagsdim Int32 = Inr c"
    "pad_3d_sequence (feat_seqs (f1 g)) p1 flagsdim Int32 = Inr d"
    "g' = g\<lparr>si0 := IdxArray a, si1 := IdxArray b, f0 := FeatArray c, f1 := FeatArray d,
            score := np_array_labels (score g)\<rparr>"
    unfolding pad_graph_None by blast
  moreover have "g\<lparr>si0 := IdxArray a, si1 := IdxArray b, f0 := FeatArray c, f1 := FeatArray d,
            score := np_array_labels (score g)\<rparr>
      = \<lparr>si0 = IdxArray a, si1 = IdxArray b, f0 = FeatArray c, f1 = FeatArray d,
         score = np_array_labels (score g), rest = rest g\<rparr>"
    by (cases g) simp
  ultimately show "\<exists>a b c d.
           pad_sequences (idx_rows (si0 g)) p0 = Inr a
         \<and> pad_sequences (idx_rows (si1 g)) p1 = Inr b
         \<and> pad_3d_sequence (feat_seqs (f0 g)) p0 flagsdim Int32 = Inr c
         \<and> pad_3d_sequence (feat_seqs (f1 g)) p1 flagsdim Int32 = Inr d
         \<and> g' = \<lparr>si0 = IdxArray a, si1 = IdxArray b, f0 = FeatArray c, f1 = FeatArray d,
                  score = np_array_labels (score g), rest = rest g\<rparr>"
    by blast
next
  fix a b c d
  assume "pad_sequences (idx_rows (si0 g)) p0 = Inr a
         \<and> pad_sequences (idx_rows (si1 g)) p1 = Inr b
         \<and> pad_3d_sequence (feat_seqs (f0 g)) p0 flagsdim Int32 = Inr c
         \<and> pad_3d_sequence (feat_seqs (f1 g)) p1 flagsdim Int32 = Inr d"
  then show "pad_graph g p0 p1 flagsdim
               = (\<lparr>si0 = IdxArray a, si1 = IdxArray b, f0 = FeatArray c, f1 = FeatArray d,
                   score = np_array_labels (score g), rest = rest g\<rparr>, None)"
    by (intro pad_graph_returns) simp_all
next
  assume ok: "0 < p0 \<and> 0 < p1
        \<and> list_all (paddable flagsdim) (feat_seqs (f0 g))
        \<and> list_all (paddable flagsdim) (feat_seqs (f1 g))"
  obtain a where a: "pad_sequences (idx_rows (si0 g)) p0 = Inr a"
    using ok pad_sequences_returns by blast
  obtain b where b: "pad_sequences (idx_rows (si1 g)) p1 = Inr b"
    using ok pad_sequences_returns by blast
  obtain c where c: "pad_3d_sequence (feat_seqs (f0 g)) p0 flagsdim Int32 = Inr c"
    using ok pad_3d_sequence_returns by blast
  obtain d where d: "pad_3d_sequence (feat_seqs (f1 g)) p1 flagsdim Int32 = Inr d"
    using ok pad_3d_sequence_returns by blast
  show "snd (pad_graph g p0 p1 flagsdim) = None"
    by (simp add: pad_graph_returns [OF a b c d])
qed

theorem C9_pad_graph_frame_witness:
  "0 < (2::nat)
   \<and> list_all (paddable 1) (feat_seqs (f0 example_graph))
   \<and> list_all (paddable 1) (feat_seqs (f1 example_graph))
   \<and> snd (pad_graph example_graph 2 2 1) = None
   \<and> pad_graph example_graph 2 2 1 = (\<lparr>si0 = IdxArray \<lparr>m_dtype = Int32, m_shape = (2, 2), m_data = [[IntS 5, IntS 6], [IntS 7, IntS 0]]\<rparr>,
       si1 = IdxArray \<lparr>m_dtype = Int32, m_shape = (2, 2), m_data = [[IntS 1, IntS 0], [IntS 0, IntS 0]]\<rparr>,
       f0 = FeatArray \<lparr>t_dtype = Int32, t_shape = (2, 2, 1),
              t_data = [[[IntS 0], [IntS 1]], [[IntS 1], [IntS 0]]]\<rparr>,
       f1 = FeatArray \<lparr>t_dtype = Int32, t_shape = (2, 2, 1),
              t_data = [[[IntS 0], [IntS 0]], [[IntS 1], [IntS 0]]]\<rparr>,
       score = LabelArray [IntS 1, IntS 0],
       rest = [''s0'' \<mapsto> [''a'', ''b'']]\<rparr>, None)
   \<and> rest (fst (pad_graph example_graph 2 2 1)) = rest example_graph
   \<and> pad_sequences (idx_rows (si0 example_graph)) 2
       = Inr \<lparr>m_dtype = Int32, m_shape = (2, 2), m_data = [[IntS 5, IntS 6], [IntS 7, IntS 0]]\<rparr>"
proof -
  let ?G = "\<lparr>si0 = IdxArray \<lparr>m_dtype = Int32, m_shape = (2, 2), m_data = [[IntS 5, IntS 6], [IntS 7, IntS 0]]\<rparr>,
       si1 = IdxArray \<lparr>m_dtype = Int32, m_shape = (2, 2), m_data = [[IntS 1, IntS 0], [IntS 0, IntS 0]]\<rparr>,
       f0 = FeatArray \<lparr>t_dtype = Int32, t_shape = (2, 2, 1),
              t_data = [[[IntS 0], [IntS 1]], [[IntS 1], [IntS 0]]]\<rparr>,
       f1 = FeatArray \<lparr>t_dtype = Int32, t_shape = (2, 2, 1),
              t_data = [[[IntS 0], [IntS 0]], [[IntS 1], [IntS 0]]]\<rparr>,
       score = LabelArray [IntS 1, IntS 0],
       rest = [''s0'' \<mapsto> [''a'', ''b'']]\<rparr>"
  note inst = C9_pad_graph_frame [of example_graph 2 2 1]
  have pre: "0 < (2::nat) \<and> 0 < (2::nat)
      \<and> list_all (paddable 1) (feat_seqs (f0 example_graph))
      \<and> list_all (paddable 1) (feat_seqs (f1 example_graph))"
    by (simp add: paddable_def example_graph_def)
  with inst have none: "snd (pad_graph example_graph 2 2 1) = None"
    by blast
  have ret: "pad_graph example_graph 2 2 1 = (?G, None)"
    by (rule example_graph_padded)
  from inst ret
  obtain a b c d where
    a: "pad_sequences (idx_rows (si0 example_graph)) 2 = Inr a" and
    G: "?G = \<lparr>si0 = IdxArray a, si1 = IdxArray b, f0 = FeatArray c, f1 = FeatArray d,
           score = np_array_labels (score example_graph), rest = rest example_graph\<rparr>"
    by blast
  from G have "a = \<lparr>m_dtype = Int32, m_shape = (2, 2), m_data = [[IntS 5, IntS 6], [IntS 7, IntS 0]]\<rparr>"
    by simp
  moreover from inst have "rest (fst (pad_graph example_graph 2 2 1)) = rest example_graph"
    by blast
  ultimately show ?thesis
    using a ret pre none by simp
qed

lemma np_array_labels_idem: "np_array_labels (np_array_labels y) = np_array_labels y"
  by (cases y) simp_all

text \<open>
  Claim C10. \<^verbatim>\<open>pad_graph\<close> is idempotent: a second call with the same pad lengths
  leaves the dictionary that the first call left, and ends as the first call ended.
\<close>

theorem C10_pad_graph_idempotent:
  "pad_graph (fst (pad_graph g p0 p1 flagsdim)) p0 p1 flagsdim = pad_graph g p0 p1 flagsdim"
proof (cases "pad_sequences (idx_rows (si0 g)) p0")
  case (Inl e)
  then show ?thesis by (simp add: pad_graph_def)
next
  case a: (Inr a)
  note a' = pad_sequences_idem [OF a]
  show ?thesis
  proof (cases "pad_sequences (idx_rows (si1 g)) p1")
    case (Inl e)
    then show ?thesis using a a' by (simp add: pad_graph_def)
  next
    case b: (Inr b)
    note b' = pad_sequences_idem [OF b]
    show ?thesis
    proof (cases "pad_3d_sequence (feat_seqs (f0 g)) p0 flagsdim Int32")
      case (Inl e)
      then show ?thesis using a a' b b' by (simp add: pad_graph_def)
    next
      case c: (Inr c)
      note c' = pad_3d_sequence_idem [OF c]
      show ?thesis
      proof (cases "pad_3d_sequence (feat_seqs (f1 g)) p1 flagsdim Int32")
        case (Inl e)
        then show ?thesis using a a' b b' c c' by (simp add: pad_graph_def)
      next
        case d: (Inr d)
        note d' = pad_3d_sequence_idem [OF d]
        show ?thesis
          using a a' b b' c c' d d' by (simp add: pad_graph_def np_array_labels_idem)
      qed
    qed
  qed
qed

theorem C10_pad_graph_idempotent_witness:
  "pad_graph example_graph 2 2 1 = (\<lparr>si0 = IdxArray \<lparr>m_dtype = Int32, m_shape = (2, 2), m_data = [[IntS 5, IntS 6], [IntS 7, IntS 0]]\<rparr>,
       si1 = IdxArray \<lparr>m_dtype = Int32, m_shape = (2, 2), m_data = [[IntS 1, IntS 0], [IntS 0, IntS 0]]\<rparr>,
       f0 = FeatArray \<lparr>t_dtype = Int32, t_shape = (2, 2, 1),
              t_data = [[[IntS 0], [IntS 1]], [[IntS 1], [IntS 0]]]\<rparr>,
       f1 = FeatArray \<lparr>t_dtype = Int32, t_shape = (2, 2, 1),
              t_data = [[[IntS 0], [IntS 0]], [[IntS 1], [IntS 0]]]\<rparr>,
       score = LabelArray [IntS 1, IntS 0],
       rest = [''s0'' \<mapsto> [''a'', ''b'']]\<rparr>, None)
   \<and> pad_graph \<lparr>si0 = IdxArray \<lparr>m_dtype = Int32, m_shape = (2, 2), m_data = [[IntS 5, IntS 6], [IntS 7, IntS 0]]\<rparr>,
       si1 = IdxArray \<lparr>m_dtype = Int32, m_shape = (2, 2), m_data = [[IntS 1, IntS 0], [IntS 0, IntS 0]]\<rparr>,
       f0 = FeatArray \<lparr>t_dtype = Int32, t_shape = (2, 2, 1),
              t_data = [[[IntS 0], [IntS 1]], [[IntS 1], [IntS 0]]]\<rparr>,
       f1 = FeatArray \<lparr>t_dtype = Int32, t_shape = (2, 2, 1),
              t_data = [[[IntS 0], [IntS 0]], [[IntS 1], [IntS 0]]]\<rparr>,
       score = LabelArray [IntS 1, IntS 0],
       rest = [''s0'' \<mapsto> [''a'', ''b'']]\<rparr> 2 2 1 = (\<lparr>si0 = IdxArray \<lparr>m_dtype = Int32, m_shape = (2, 2), m_data = [[IntS 5, IntS 6], [IntS 7, IntS 0]]\<rparr>,
       si1 = IdxArray \<lparr>m_dtype = Int32, m_shape = (2, 2), m_data = [[IntS 1, IntS 0], [IntS 0, IntS 0]]\<rparr>,
       f0 = FeatArray \<lparr>t_dtype = Int32, t_shape = (2, 2, 1),
              t_data = [[[IntS 0], [IntS 1]], [[IntS 1], [IntS 0]]]\<rparr>,
       f1 = FeatArray \<lparr>t_dtype = Int32, t_shape = (2, 2, 1),
              t_data = [[[IntS 0], [IntS 0]], [[IntS 1], [IntS 0]]]\<rparr>,
       score = LabelArray [IntS 1, IntS 0],
       rest = [''s0'' \<mapsto> [''a'', ''b'']]\<rparr>, None)"
proof -
  have ret: "pad_graph example_graph 2 2 1 = (\<lparr>si0 = IdxArray \<lparr>m_dtype = Int32, m_shape = (2, 2), m_data = [[IntS 5, IntS 6], [IntS 7, IntS 0]]\<rparr>,
       si1 = IdxArray \<lparr>m_dtype = Int32, m_shape = (2, 2), m_data = [[IntS 1, IntS 0], [IntS 0, IntS 0]]\<rparr>,
       f0 = FeatArray \<lparr>t_dtype = Int32, t_shape = (2, 2, 1),
              t_data = [[[IntS 0], [IntS 1]], [[IntS 1], [IntS 0]]]\<rparr>,
       f1 = FeatArray \<lparr>t_dtype = Int32, t_shape = (2, 2, 1),
              t_data = [[[IntS 0], [IntS 0]], [[IntS 1], [IntS 0]]]\<rparr>,
       score = LabelArray [IntS 1, IntS 0],
       rest = [''s0'' \<mapsto> [''a'', ''b'']]\<rparr>, None)"
    by (rule example_graph_padded)
  with C10_pad_graph_idempotent [of example_graph 2 2 1] show ?thesis
    by simp
qed

section \<open>The generator, pass by pass\<close>











lemma sample_loop_extends:
  "\<exists>zs. fst (sample_loop (Suc fuel) shuffle rng g bs p0 p1 fd ids once)
     = fst (sample_loop fuel shuffle rng g bs p0 p1 fd ids once) @ zs"
proof (induction fuel arbitrary: rng ids)
  case 0
  then show ?case by simp
next
  case (Suc fuel)
  obtain ids' rng' where sh: "shuffle rng ids = (ids', rng')"
    by (cases "shuffle rng ids")
  obtain ys r where pass: "sample_pass g bs p0 p1 fd ids' = (ys, r)"
    by (cases "sample_pass g bs p0 p1 fd ids'")
  obtain a st where A: "sample_loop (Suc fuel) shuffle rng' g bs p0 p1 fd ids' once = (a, st)"
    by (cases "sample_loop (Suc fuel) shuffle rng' g bs p0 p1 fd ids' once")
  obtain b st' where B: "sample_loop fuel shuffle rng' g bs p0 p1 fd ids' once = (b, st')"
    by (cases "sample_loop fuel shuffle rng' g bs p0 p1 fd ids' once")
  from Suc.IH [of rng' ids'] A B obtain zs where zs: "a = b @ zs"
    by auto
  show ?case
  proof (cases "r = None \<and> \<not> once")
    case True
    have "sample_loop (Suc (Suc fuel)) shuffle rng g bs p0 p1 fd ids once = (ys @ a, st)"
      using True A by (subst sample_loop.simps(2)) (simp add: sh pass del: sample_loop.simps)
    moreover have "sample_loop (Suc fuel) shuffle rng g bs p0 p1 fd ids once = (ys @ b, st')"
      using True B by (subst sample_loop.simps(2)) (simp add: sh pass del: sample_loop.simps)
    ultimately show ?thesis
      using zs by (simp del: sample_loop.simps)
  next
    case False
    have "sample_loop (Suc (Suc fuel)) shuffle rng g bs p0 p1 fd ids once
        = sample_loop (Suc fuel) shuffle rng g bs p0 p1 fd ids once"
      using False
      by (subst (1 2) sample_loop.simps(2)) (cases r; simp add: sh pass del: sample_loop.simps)
    then show ?thesis
      by (simp del: sample_loop.simps)
  qed
qed








section \<open>Claims about sample\_pairs\<close>































section \<open>Claims about UbuntuTask\<close>

lemma unpack5_Inr:
  "unpack5 obj = Inr (a, b, c, d, y) \<longleftrightarrow> obj = Iterable [a, b, c, d, y]"
  by (cases obj rule: unpack5.cases) auto

lemma load_set_five:
  "unpickle fname = Inr (Iterable [a, b, c, d, y]) \<Longrightarrow>
   load_set unpickle self fname = Inr (graph_input_anssel a b y c d, y, vocab self)"
  by (simp add: load_set_def)

text \<open>
  Claim C3, as stated: "if \<^verbatim>\<open>load_vocab\<close> has not been called before \<^verbatim>\<open>load_set\<close>, then
  \<^verbatim>\<open>load_set\<close> fails rather than returning normally". It fails on the task as
  \<^verbatim>\<open>__init__\<close> leaves it: \<^verbatim>\<open>load_set\<close> returns the dataset with \<^verbatim>\<open>None\<close> as vocabulary.
\<close>

theorem C3_vocab_not_loaded_counterexample:
  "vocab (UbuntuTask :: (unit, int) task) = None
   \<and> load_set example_unpickle (UbuntuTask :: (unit, int) task) ''train.pickle''
       = Inr ([''si0'' \<mapsto> Iterable [Iterable [Atom 4, Atom 5, Atom 6], Iterable [Atom 7]],
               ''si1'' \<mapsto> Iterable [Iterable [Atom 1], Iterable []],
               ''score'' \<mapsto> Iterable [Atom 1, Atom 0],
               ''f0'' \<mapsto> Iterable [Iterable [Iterable [Atom 1], Iterable [Atom 0], Iterable [Atom 1]],
                                  Iterable [Iterable [Atom 1]]],
               ''f1'' \<mapsto> Iterable [Iterable [Iterable [Atom 0]], Iterable [Iterable [Atom 1]]]],
              Iterable [Atom 1, Atom 0], None)"
  by (simp add: UbuntuTask_def load_set_def example_unpickle_def graph_input_anssel_def)

text \<open>
  Claim C3, amended. \<^verbatim>\<open>load_set\<close> does not consult the vocabulary. When the object in the
  file unpacks into five items, \<^verbatim>\<open>load_set\<close> returns normally, and the third component of
  its result is \<^verbatim>\<open>self.vocab\<close> as it is, \<^verbatim>\<open>None\<close> when \<^verbatim>\<open>load_vocab\<close> has not been called.
  Whether \<^verbatim>\<open>load_set\<close> returns or raises, the exception it raises, and the dataset and the
  labels it returns are the same for every value of \<^verbatim>\<open>self.vocab\<close>.
\<close>

theorem C3_load_set_ignores_vocab:
  "(\<forall>a b c d y. unpickle fname = Inr (Iterable [a, b, c, d, y]) \<longrightarrow>
      load_set unpickle self fname = Inr (graph_input_anssel a b y c d, y, vocab self))
   \<and> (\<forall>e. load_set unpickle self fname = Inl e \<longrightarrow>
        load_set unpickle (self\<lparr>vocab := v\<rparr>) fname = Inl e)
   \<and> (\<forall>gr y w. load_set unpickle self fname = Inr (gr, y, w) \<longrightarrow>
        w = vocab self \<and> load_set unpickle (self\<lparr>vocab := v\<rparr>) fname = Inr (gr, y, v))"
proof (intro conjI allI impI)
  fix a b c d y
  assume "unpickle fname = Inr (Iterable [a, b, c, d, y])"
  then show "load_set unpickle self fname = Inr (graph_input_anssel a b y c d, y, vocab self)"
    by (rule load_set_five)
next
  fix e
  assume "load_set unpickle self fname = Inl e"
  then show "load_set unpickle (self\<lparr>vocab := v\<rparr>) fname = Inl e"
    by (auto simp add: load_set_def split: sum.splits prod.splits)
next
  fix gr y w
  assume ret: "load_set unpickle self fname = Inr (gr, y, w)"
  then show "w = vocab self"
    by (auto simp add: load_set_def split: sum.splits prod.splits)
  from ret show "load_set unpickle (self\<lparr>vocab := v\<rparr>) fname = Inr (gr, y, v)"
    by (auto simp add: load_set_def split: sum.splits prod.splits)
qed

theorem C3_load_set_ignores_vocab_witness:
  "example_unpickle ''numbers.pickle'' = Inr (Iterable [Atom 1, Atom 2, Atom 3, Atom 4, Atom 5])
   \<and> load_set example_unpickle (UbuntuTask :: (unit, int) task) ''numbers.pickle''
       = Inr (graph_input_anssel (Atom 1) (Atom 2) (Atom 5) (Atom 3) (Atom 4), Atom 5, None)
   \<and> load_set example_unpickle
         ((UbuntuTask :: (unit, int) task)\<lparr>vocab := Some (Iterable [Iterable [Atom 0, Atom 1]])\<rparr>)
         ''numbers.pickle''
       = Inr (graph_input_anssel (Atom 1) (Atom 2) (Atom 5) (Atom 3) (Atom 4), Atom 5,
              Some (Iterable [Iterable [Atom 0, Atom 1]]))
   \<and> load_set example_unpickle (UbuntuTask :: (unit, int) task) ''none.pickle'' = Inl TypeError
   \<and> load_set example_unpickle
         ((UbuntuTask :: (unit, int) task)\<lparr>vocab := Some (Iterable [Iterable [Atom 0, Atom 1]])\<rparr>)
         ''none.pickle''
       = Inl TypeError"
proof -
  let ?task = "UbuntuTask :: (unit, int) task"
  let ?v = "Some (Iterable [Iterable [Atom 0, Atom 1 :: int pyobj]])"
  let ?gr = "graph_input_anssel (Atom 1) (Atom 2) (Atom 5) (Atom 3) (Atom 4 :: int pyobj)"
  note inst = C3_load_set_ignores_vocab [of example_unpickle "''numbers.pickle''" ?task ?v]
  note inst' = C3_load_set_ignores_vocab [of example_unpickle "''none.pickle''" ?task ?v]
  have stored: "example_unpickle ''numbers.pickle''
      = Inr (Iterable [Atom 1, Atom 2, Atom 3, Atom 4, Atom 5])"
    by (simp add: example_unpickle_def)
  with inst have "load_set example_unpickle ?task ''numbers.pickle'' = Inr (?gr, Atom 5, vocab ?task)"
    by blast
  then have ret: "load_set example_unpickle ?task ''numbers.pickle'' = Inr (?gr, Atom 5, None)"
    by (simp add: UbuntuTask_def)
  with inst have ret': "load_set example_unpickle (?task\<lparr>vocab := ?v\<rparr>) ''numbers.pickle''
      = Inr (?gr, Atom 5, ?v)"
    by blast
  have raises: "load_set example_unpickle ?task ''none.pickle'' = Inl TypeError"
    by (simp add: load_set_def example_unpickle_def)
  with inst' have raises': "load_set example_unpickle (?task\<lparr>vocab := ?v\<rparr>) ''none.pickle''
      = Inl TypeError"
    by blast
  from stored ret ret' raises raises' show ?thesis
    by simp
qed




end
